theory Spec2Isabelle
  imports Main "HOL-Library.Sublist"
begin

section \<open>Data model: the metaobject as the storefront API returns it\<close>

text \<open>
  Modelled from the spec: the type \<open>Metaobject\<close> is imported from the storefront API's type
  package and is not declared in the sources; its shape follows the spec's data model and
  the fields the GraphQL queries select. A metaobject has \<open>id\<close>, \<open>type\<close>, \<open>handle\<close> and an
  ordered list \<open>fields\<close> of \<open>{key, value, type, reference, references}\<close> entries. A field's
  \<open>key\<close> and \<open>value\<close> are strings (the value always present, possibly empty), its
  \<open>reference\<close> and \<open>references\<close> are optional. A property that the code tests for
  truthiness, or reads behind such a test, is an \<open>option\<close> here: \<open>None\<close> stands for
  JavaScript's \<open>undefined\<close> and \<open>null\<close> alike, which the code never tells apart.

  The field selectors \<open>fvalue\<close> and \<open>ftype\<close> stand for the properties \<open>value\<close> and \<open>type\<close>.
\<close>

record image =
  url :: string
  altText :: "string option"
  width :: "int option"
  height :: "int option"

text \<open>A single reference (a \<open>MediaImage\<close>): \<open>ref_image\<close> is its \<open>image\<close> payload, \<open>None\<close> when the
  referenced object has no \<open>image\<close> property or a null one.\<close>

record reference =
  ref_image :: "image option"

text \<open>The fields of a nested metaobject (a review) carry a key, a value, a type and a single
  reference.\<close>

record rfield =
  key :: string
  fvalue :: string
  ftype :: string
  reference :: "reference option"

record money =
  amount :: string
  currencyCode :: string

record priceRange =
  minVariantPrice :: money

text \<open>
  An entry of \<open>references.nodes\<close>. The code types it \<open>any\<close>: a product node carries
  \<open>id, title, handle, priceRange, featuredImage\<close>, a review node (a nested metaobject) carries
  \<open>id\<close> and \<open>fields\<close>; one record with every property optional covers both, and an entry of
  the list may itself be null (\<open>node option\<close>).
\<close>

record node =
  n_id :: "string option"
  n_title :: "string option"
  n_handle :: "string option"
  n_priceRange :: "priceRange option"
  n_featuredImage :: "image option"
  n_fields :: "rfield list option"

record connection =
  nodes :: "node option list option"

record field = rfield +
  references :: "connection option"

record metaobject =
  m_id :: string
  m_type :: string
  m_handle :: string
  m_fields :: "field list option"

section \<open>JavaScript operators used by the resolvers\<close>

text \<open>\<open>a || b\<close> on strings: the empty string is the only falsy string.\<close>

definition or_str :: "string \<Rightarrow> string \<Rightarrow> string" where
  "or_str a b = (if a = '''' then b else a)"

text \<open>Truthiness of an optional string (\<open>undefined\<close>, \<open>null\<close> and \<open>''\<close> are falsy).\<close>

definition truthy :: "string option \<Rightarrow> bool" where
  "truthy s = (case s of None \<Rightarrow> False | Some v \<Rightarrow> v \<noteq> '''')"

section \<open>Field extractors\<close>

text \<open>
  \<^verbatim>\<open>metaobject.fields?.find((f) => f?.key === key)?.value || ''\<close>

  The same arrow function is written in \<open>HeroParallax\<close>, \<open>ProductCarousel\<close> and
  \<open>ReviewsSection\<close>. \<open>find\<close> returns the first entry, in list order, whose key is
  strictly equal to the given one, or \<open>undefined\<close>.
\<close>

definition getFieldValue :: "metaobject \<Rightarrow> string \<Rightarrow> string" where
  "getFieldValue m k =
     (case m_fields m of
        None \<Rightarrow> ''''
      | Some fs \<Rightarrow>
          (case find (\<lambda>f. key f = k) fs of
             None \<Rightarrow> ''''
           | Some f \<Rightarrow> or_str (fvalue f) ''''))"

text \<open>\<^verbatim>\<open>metaobject.fields?.find((f) => f?.key === key)?.reference\<close> (HeroParallax).\<close>

definition getFieldReference :: "metaobject \<Rightarrow> string \<Rightarrow> reference option" where
  "getFieldReference m k =
     (case m_fields m of
        None \<Rightarrow> None
      | Some fs \<Rightarrow>
          (case find (\<lambda>f. key f = k) fs of
             None \<Rightarrow> None
           | Some f \<Rightarrow> reference f))"

text \<open>
  \<^verbatim>\<open>const field = metaobject.fields?.find((f) => f?.key === key);
  return field?.references?.nodes || [];\<close>
  (ProductCarousel and ReviewsSection). An array, even an empty one, is truthy.
\<close>

definition getFieldReferences :: "metaobject \<Rightarrow> string \<Rightarrow> node option list" where
  "getFieldReferences m k =
     (case m_fields m of
        None \<Rightarrow> []
      | Some fs \<Rightarrow>
          (case find (\<lambda>f. key f = k) fs of
             None \<Rightarrow> []
           | Some f \<Rightarrow>
               (case references f of
                  None \<Rightarrow> []
                | Some c \<Rightarrow> (case nodes c of None \<Rightarrow> [] | Some ns \<Rightarrow> ns))))"

section \<open>Exceptions and \<open>Array.prototype.map\<close>\<close>

text \<open>
  What the modelled code can throw: a \<open>TypeError\<close> (a property read on \<open>undefined\<close> or
  \<open>null\<close>), the \<open>Response\<close> with status 404 that the loader throws for a wrong locale, and
  an exception raised while the storefront queries are issued or by the helper
  \<open>seoPayload.home\<close>.
\<close>

datatype error = TypeError | Response404 | Thrown string

text \<open>\<open>xs.map(f)\<close> for a callback that may throw: the first exception ends the call.\<close>

fun mapE :: "('a \<Rightarrow> error + 'b) \<Rightarrow> 'a list \<Rightarrow> error + 'b list" where
  "mapE f [] = Inr []"
| "mapE f (x # xs) =
     (case f x of
        Inl e \<Rightarrow> Inl e
      | Inr y \<Rightarrow> (case mapE f xs of Inl e \<Rightarrow> Inl e | Inr ys \<Rightarrow> Inr (y # ys)))"

section \<open>ProductCarousel\<close>

text \<open>
  The \<open>Product\<close> view model. The mapper copies \<open>product.id\<close>, \<open>product.title\<close> and
  \<open>product.handle\<close> as they are, so they keep the node's optional type here.
\<close>

record product =
  p_id :: "string option"
  p_title :: "string option"
  p_priceRange :: priceRange
  p_featuredImage :: "image option"
  p_handle :: "string option"

text \<open>\<^verbatim>\<open>(node: any) => node?.id && node?.title && node?.priceRange\<close>\<close>

definition productPred :: "node option \<Rightarrow> bool" where
  "productPred node =
     (case node of
        None \<Rightarrow> False
      | Some n \<Rightarrow> truthy (n_id n) \<and> truthy (n_title n) \<and> n_priceRange n \<noteq> None)"

text \<open>
  \<^verbatim>\<open>(product: any) => ({
    id: product.id,
    title: product.title,
    priceRange: { minVariantPrice: {
        amount: product.priceRange.minVariantPrice.amount,
        currencyCode: product.priceRange.minVariantPrice.currencyCode } },
    featuredImage: product.featuredImage || null,
    handle: product.handle })\<close>

  Reading \<open>product.id\<close> of a null entry, or \<open>minVariantPrice\<close> of a missing \<open>priceRange\<close>,
  throws a \<open>TypeError\<close>.
\<close>

definition productMap :: "node option \<Rightarrow> error + product" where
  "productMap product =
     (case product of
        None \<Rightarrow> Inl TypeError
      | Some n \<Rightarrow>
          (case n_priceRange n of
             None \<Rightarrow> Inl TypeError
           | Some pr \<Rightarrow>
               Inr \<lparr>p_id = n_id n,
                    p_title = n_title n,
                    p_priceRange =
                      \<lparr>minVariantPrice =
                         \<lparr>amount = amount (minVariantPrice pr),
                          currencyCode = currencyCode (minVariantPrice pr)\<rparr>\<rparr>,
                    p_featuredImage = n_featuredImage n,
                    p_handle = n_handle n\<rparr>))"

text \<open>\<^verbatim>\<open>productNodes.filter(...).map(...)\<close>\<close>

definition products :: "node option list \<Rightarrow> error + product list" where
  "products productNodes = mapE productMap (filter productPred productNodes)"

text \<open>
  The remainder operator \<open>%\<close> on integers: the result has the sign of the dividend
  (\<open>-4 % 3\<close> is \<open>-1\<close>). The code divides by \<open>products.length\<close> past the early return
  for an empty list only; for the divisor 0, where JavaScript gives \<open>NaN\<close>, the value here
  is the dividend, and indexing the empty list with it is \<open>undefined\<close> as it is with \<open>NaN\<close>.
\<close>

definition js_rem :: "int \<Rightarrow> int \<Rightarrow> int" where
  "js_rem a b = sgn a * (\<bar>a\<bar> mod \<bar>b\<bar>)"

text \<open>\<open>xs[index]\<close>: \<open>undefined\<close> outside the array.\<close>

definition at_index :: "'a list \<Rightarrow> int \<Rightarrow> 'a option" where
  "at_index xs index =
     (if 0 \<le> index \<and> index < int (length xs) then Some (xs ! nat index) else None)"

text \<open>
  A \<open>VisibleProduct\<close> is \<open>{...products[index], offset, isActive}\<close>; spreading \<open>undefined\<close>
  adds no property, so the product part is optional.
\<close>

record visibleProduct =
  vp_product :: "product option"
  offset :: int
  isActive :: bool

text \<open>
  \<^verbatim>\<open>for (let i = -2; i <= 2; i++) {
    const index = (currentIndex + i + products.length) % products.length;
    visible.push({ ...products[index], offset: i, isActive: i === 0 });
  }\<close>
\<close>

function visibleLoop :: "product list \<Rightarrow> int \<Rightarrow> int \<Rightarrow> visibleProduct list \<Rightarrow> visibleProduct list"
  where
  "visibleLoop ps currentIndex i visible =
     (if i \<le> 2 then
        let index = js_rem (currentIndex + i + int (length ps)) (int (length ps))
        in visibleLoop ps currentIndex (i + 1)
             (visible @ [\<lparr>vp_product = at_index ps index, offset = i, isActive = (i = 0)\<rparr>])
      else visible)"
  by pat_completeness auto
termination
  by (relation "measure (\<lambda>(ps, currentIndex, i, visible). nat (3 - i))") auto

declare visibleLoop.simps [simp del]

definition visibleProducts :: "product list \<Rightarrow> int \<Rightarrow> visibleProduct list" where
  "visibleProducts ps currentIndex = visibleLoop ps currentIndex (- 2) []"

text \<open>
  The index state: \<open>useState(0)\<close>, \<open>handleNext\<close> sets \<open>(prev + 1) % products.length\<close>,
  \<open>handlePrevious\<close> sets \<open>prev === 0 ? products.length - 1 : prev - 1\<close>. Both exist only
  past the early returns, where \<open>products.length\<close> is at least 1.
\<close>

definition handleNext :: "int \<Rightarrow> int \<Rightarrow> int" where
  "handleNext n prev = js_rem (prev + 1) n"

definition handlePrevious :: "int \<Rightarrow> int \<Rightarrow> int" where
  "handlePrevious n prev = (if prev = 0 then n - 1 else prev - 1)"

text \<open>
  The index after a sequence of navigation steps from the initial state 0, each step with
  the number of products at its time.
\<close>

datatype navigation = Next | Previous

fun navigate :: "int \<Rightarrow> navigation \<times> int \<Rightarrow> int" where
  "navigate prev (Next, n) = handleNext n prev"
| "navigate prev (Previous, n) = handlePrevious n prev"

definition currentIndexAfter :: "(navigation \<times> int) list \<Rightarrow> int" where
  "currentIndexAfter steps = foldl navigate 0 steps"

text \<open>
  What the component returns: the \<open>product-carousel-error\<close> block (``Metaobject Not Found''),
  the \<open>product-carousel-empty\<close> block naming the metaobject's handle, or the carousel with
  its heading, the visible window and the centre product \<open>products[currentIndex]\<close>.
\<close>

datatype pc_render =
  ProductCarouselError
| ProductCarouselEmpty string
| ProductCarouselSection string "visibleProduct list" "product option"

definition ProductCarousel :: "metaobject option \<Rightarrow> int \<Rightarrow> error + pc_render" where
  "ProductCarousel metaobject currentIndex =
     (case metaobject of
        None \<Rightarrow> Inr ProductCarouselError
      | Some m \<Rightarrow>
          (case m_fields m of
             None \<Rightarrow> Inr ProductCarouselError
           | Some _ \<Rightarrow>
               (let heading = or_str (getFieldValue m ''heading'') ''Our Featured Products'';
                    productNodes = getFieldReferences m ''products''
                in case products productNodes of
                     Inl e \<Rightarrow> Inl e
                   | Inr ps \<Rightarrow>
                       if length ps = 0 then Inr (ProductCarouselEmpty (m_handle m))
                       else Inr (ProductCarouselSection heading
                                   (visibleProducts ps currentIndex)
                                   (at_index ps currentIndex)))))"

section \<open>ReviewsSection\<close>

text \<open>
  The \<open>Review\<close> view model. \<open>rating\<close> is the number \<open>parseFloat\<close> returns; the built-in
  functions \<open>parseFloat\<close> and \<open>encodeURIComponent\<close> are parameters of the model.
\<close>

record 'n review =
  r_id :: "string option"
  customerName :: string
  customerRole :: string
  customerImage :: string
  rating :: 'n
  reviewText :: string

text \<open>\<^verbatim>\<open>(node: any) => node && node.fields\<close>\<close>

definition reviewPred :: "node option \<Rightarrow> bool" where
  "reviewPred node = (case node of None \<Rightarrow> False | Some n \<Rightarrow> n_fields n \<noteq> None)"

text \<open>
  \<^verbatim>\<open>const field = review.fields?.find((f: any) => f?.key === key);
  return field?.value || '';\<close>
\<close>

definition getReviewField :: "node \<Rightarrow> string \<Rightarrow> string" where
  "getReviewField review k =
     (case n_fields review of
        None \<Rightarrow> ''''
      | Some fs \<Rightarrow>
          (case find (\<lambda>f. key f = k) fs of
             None \<Rightarrow> ''''
           | Some f \<Rightarrow> or_str (fvalue f) ''''))"

text \<open>
  \<^verbatim>\<open>const field = review.fields?.find((f: any) => f?.key === key);
  if (field?.reference && field.reference.image) { return field.reference.image.url; }
  return '';\<close>
\<close>

definition getReviewImageField :: "node \<Rightarrow> string \<Rightarrow> string" where
  "getReviewImageField review k =
     (case n_fields review of
        None \<Rightarrow> ''''
      | Some fs \<Rightarrow>
          (case find (\<lambda>f. key f = k) fs of
             None \<Rightarrow> ''''
           | Some f \<Rightarrow>
               (case reference f of
                  None \<Rightarrow> ''''
                | Some r \<Rightarrow> (case ref_image r of None \<Rightarrow> '''' | Some img \<Rightarrow> url img))))"

text \<open>The mapper of the reviews; \<open>review.fields\<close> of a null entry throws a \<open>TypeError\<close>.\<close>

definition reviewMap ::
  "(string \<Rightarrow> 'n) \<Rightarrow> (string \<Rightarrow> string) \<Rightarrow> node option \<Rightarrow> error + 'n review" where
  "reviewMap parseFloat encodeURIComponent review =
     (case review of
        None \<Rightarrow> Inl TypeError
      | Some r \<Rightarrow>
          (let customerName = getReviewField r ''customer_name'';
               customerRole = getReviewField r ''customer_role'';
               customerImage = getReviewImageField r ''customer_img'';
               rating = parseFloat (or_str (getReviewField r ''rating'') ''5'');
               reviewText = getReviewField r ''review_text''
           in Inr \<lparr>r_id = n_id r,
                   customerName = customerName,
                   customerRole = customerRole,
                   customerImage =
                     or_str customerImage
                       (''https://ui-avatars.com/api/?name='' @ encodeURIComponent customerName
                          @ ''&background=667eea&color=fff&size=100&bold=true''),
                   rating = rating,
                   reviewText = reviewText\<rparr>))"

text \<open>The template literal of the fallback avatar, as a notation for the statements below.\<close>

abbreviation avatarUrl :: "(string \<Rightarrow> string) \<Rightarrow> string \<Rightarrow> string" where
  "avatarUrl encodeURIComponent cname \<equiv>
     ''https://ui-avatars.com/api/?name='' @ encodeURIComponent cname
       @ ''&background=667eea&color=fff&size=100&bold=true''"

text \<open>\<^verbatim>\<open>reviewNodes.filter(...).map(...)\<close>\<close>

definition reviews ::
  "(string \<Rightarrow> 'n) \<Rightarrow> (string \<Rightarrow> string) \<Rightarrow> node option list \<Rightarrow> error + 'n review list" where
  "reviews parseFloat encodeURIComponent reviewNodes =
     mapE (reviewMap parseFloat encodeURIComponent) (filter reviewPred reviewNodes)"

text \<open>
  What the component returns, with the messages it writes to \<open>console.error\<close>: \<open>null\<close>
  after logging when the metaobject or its fields are missing, \<open>null\<close> without a message
  when no review is left, the section with its heading and reviews otherwise (the split of
  the reviews into three scrolling columns is presentation and is left out).
\<close>

datatype 'n rs_render = ReviewsNull | ReviewsView string "'n review list"

definition ReviewsSection ::
  "(string \<Rightarrow> 'n) \<Rightarrow> (string \<Rightarrow> string) \<Rightarrow> metaobject option
     \<Rightarrow> error + (string list \<times> 'n rs_render)" where
  "ReviewsSection parseFloat encodeURIComponent metaobject =
     (case metaobject of
        None \<Rightarrow> Inr ([''[ReviewsSection] metaobject is null or has no fields''], ReviewsNull)
      | Some m \<Rightarrow>
          (case m_fields m of
             None \<Rightarrow> Inr ([''[ReviewsSection] metaobject is null or has no fields''], ReviewsNull)
           | Some _ \<Rightarrow>
               (let heading = or_str (getFieldValue m ''heading'') ''What Our Customers Say'';
                    reviewNodes = getFieldReferences m ''reviews''
                in case reviews parseFloat encodeURIComponent reviewNodes of
                     Inl e \<Rightarrow> Inl e
                   | Inr rs \<Rightarrow>
                       if length rs = 0 then Inr ([], ReviewsNull)
                       else Inr ([], ReviewsView heading rs))))"

section \<open>HeroParallax\<close>

text \<open>
  \<^verbatim>\<open>if (backgroundImageReference && 'image' in backgroundImageReference
      && backgroundImageReference.image) {
    return { url: backgroundImageReference.image.url,
             altText: backgroundImageReference.image.altText || '',
             width: backgroundImageReference.image.width,
             height: backgroundImageReference.image.height } as ImageType;
  }
  return null;\<close>
\<close>

definition narrowImage :: "reference option \<Rightarrow> image option" where
  "narrowImage backgroundImageReference =
     (case backgroundImageReference of
        None \<Rightarrow> None
      | Some r \<Rightarrow>
          (case ref_image r of
             None \<Rightarrow> None
           | Some img \<Rightarrow>
               Some \<lparr>url = url img,
                     altText = Some (case altText img of None \<Rightarrow> '''' | Some a \<Rightarrow> or_str a ''''),
                     width = width img,
                     height = height img\<rparr>))"

definition backgroundImage :: "metaobject \<Rightarrow> image option" where
  "backgroundImage m = narrowImage (getFieldReference m ''background_image'')"

text \<open>The values the hero component derives from its metaobject (its prop is not optional).\<close>

record heroView =
  hv_heading :: string
  hv_subheading :: string
  hv_ctaText :: string
  hv_ctaUrl :: string
  hv_backgroundImage :: "image option"

definition HeroParallax :: "metaobject \<Rightarrow> heroView" where
  "HeroParallax m =
     \<lparr>hv_heading = getFieldValue m ''heading'',
      hv_subheading = getFieldValue m ''subheading'',
      hv_ctaText = getFieldValue m ''cta_text'',
      hv_ctaUrl = getFieldValue m ''cta_url_new'',
      hv_backgroundImage = backgroundImage m\<rparr>"

section \<open>The homepage loader and the page\<close>

text \<open>An entry of the array \<open>Promise.allSettled\<close> resolves to.\<close>

datatype 'a settled = Fulfilled 'a | Rejected string

record shop =
  name :: string
  description :: string

text \<open>The data of a query result: \<open>value?.shop\<close> and \<open>value?.metaobject\<close>.\<close>

record shopData =
  sd_shop :: "shop option"

record metaobjectData =
  md_metaobject :: "metaobject option"

type_synonym queries =
  "shopData option settled \<times> metaobjectData option settled
     \<times> metaobjectData option settled \<times> metaobjectData option settled"

record 'seo loaderData =
  ld_shop :: shop
  heroParallax :: "metaobject option"
  productShowcase :: "metaobject option"
  reviewsSection :: "metaobject option"
  seo :: 'seo

text \<open>
  The loader's arguments: \<open>params.locale\<close>, \<open>context.storefront.i18n\<close>, \<open>request.url\<close>, and
  what issuing the four \<open>context.storefront.query\<close> calls and awaiting
  \<open>Promise.allSettled\<close> gives: the four settled outcomes, or an exception when the step
  itself throws. The helper \<open>seoPayload.home\<close> (of \<open>~/lib/seo.server\<close>, not among the
  sources) is a parameter \<open>seoHome\<close> from the request URL to the payload or to the
  exception it throws; the string method \<open>toLowerCase\<close> is a parameter too.
\<close>

record args =
  params_locale :: "string option"
  i18n_language :: string
  i18n_country :: string
  storefront_queries :: "error + queries"
  request_url :: string

definition metaobjectOf :: "metaobjectData option settled \<Rightarrow> metaobject option" where
  "metaobjectOf result =
     (case result of
        Rejected _ \<Rightarrow> None
      | Fulfilled v \<Rightarrow> (case v of None \<Rightarrow> None | Some d \<Rightarrow> md_metaobject d))"

definition shopOf :: "shopData option settled \<Rightarrow> shop" where
  "shopOf result =
     (case result of
        Rejected _ \<Rightarrow> \<lparr>name = ''Store'', description = ''''\<rparr>
      | Fulfilled v \<Rightarrow>
          (case v of
             None \<Rightarrow> \<lparr>name = ''Store'', description = ''''\<rparr>
           | Some d \<Rightarrow>
               (case sd_shop d of
                  None \<Rightarrow> \<lparr>name = ''Store'', description = ''''\<rparr>
                | Some s \<Rightarrow> s)))"

text \<open>
  \<open>loadCriticalData\<close>: the four queries are settled together; each slot is taken from its
  own outcome (\<open>shopOf\<close> and \<open>metaobjectOf\<close> are the four ternaries
  \<^verbatim>\<open>r.status === 'fulfilled' && r.value?.x ? r.value.x : fallback\<close>); the returned object
  is built last, with \<^verbatim>\<open>seo: seoPayload.home({ url: request.url })\<close>. An exception in the
  body, from the query step or from \<open>seoPayload.home\<close>, is logged and thrown again. The
  development-only \<open>console.log\<close> calls are left out.
\<close>

definition loadCriticalData ::
  "(string \<Rightarrow> error + 'seo) \<Rightarrow> args \<Rightarrow> error + 'seo loaderData" where
  "loadCriticalData seoHome a =
     (case storefront_queries a of
        Inl e \<Rightarrow> Inl e
      | Inr (shopResult, heroResult, productResult, reviewsResult) \<Rightarrow>
          (case seoHome (request_url a) of
             Inl e \<Rightarrow> Inl e
           | Inr payload \<Rightarrow>
               Inr \<lparr>ld_shop = shopOf shopResult,
                    heroParallax = metaobjectOf heroResult,
                    productShowcase = metaobjectOf productResult,
                    reviewsSection = metaobjectOf reviewsResult,
                    seo = payload\<rparr>))"



text \<open>
  The page renders each section's component when its slot of the loader data is truthy and a
  placeholder paragraph otherwise.
\<close>

datatype 'a slot = Placeholder string | Rendered 'a

record 'n homepage =
  hero_slot :: "heroView slot"
  product_slot :: "(error + pc_render) slot"
  reviews_slot :: "(error + (string list \<times> 'n rs_render)) slot"

definition Homepage ::
  "(string \<Rightarrow> 'n) \<Rightarrow> (string \<Rightarrow> string) \<Rightarrow> 'seo loaderData \<Rightarrow> int \<Rightarrow> 'n homepage" where
  "Homepage parseFloat encodeURIComponent d currentIndex =
     \<lparr>hero_slot =
        (case heroParallax d of
           None \<Rightarrow> Placeholder ''Hero section loading...''
         | Some m \<Rightarrow> Rendered (HeroParallax m)),
      product_slot =
        (case productShowcase d of
           None \<Rightarrow> Placeholder ''Products loading...''
         | Some m \<Rightarrow> Rendered (ProductCarousel (Some m) currentIndex)),
      reviews_slot =
        (case reviewsSection d of
           None \<Rightarrow> Placeholder ''Reviews loading...''
         | Some m \<Rightarrow> Rendered (ReviewsSection parseFloat encodeURIComponent (Some m)))\<rparr>"

section \<open>Fragments of the built-in functions, for evaluation at concrete inputs\<close>

text \<open>
  \<open>encodeURIComponent\<close> on a string given as its UTF-8 bytes: the unreserved characters
  \<open>A-Z a-z 0-9 - _ . ! ~ * ' ( )\<close> stay, every other byte becomes \<open>%XX\<close> in upper-case
  hexadecimal.
\<close>

definition hexDigit :: "nat \<Rightarrow> char" where
  "hexDigit d = ''0123456789ABCDEF'' ! d"

definition unreserved :: "char \<Rightarrow> bool" where
  "unreserved c =
     (c \<in> set ''ABCDEFGHIJKLMNOPQRSTUVWXYZabcdefghijklmnopqrstuvwxyz0123456789-_.!~*()''
      \<or> c = CHR 0x27)"

definition encodeURIComponent_bytes :: "string \<Rightarrow> string" where
  "encodeURIComponent_bytes s =
     concat (map (\<lambda>c. if unreserved c then [c]
                       else [CHR ''%'', hexDigit (of_char c div 16), hexDigit (of_char c mod 16)]) s)"

text \<open>
  \<open>parseFloat\<close> on a non-empty string of decimal digits is the number they denote; \<open>None\<close>
  marks a string outside this fragment.
\<close>

definition digitValue :: "char \<Rightarrow> nat" where
  "digitValue c = of_char c - 48"

definition isDigit :: "char \<Rightarrow> bool" where
  "isDigit c = (48 \<le> (of_char c :: nat) \<and> (of_char c :: nat) \<le> 57)"

definition parseFloat_digits :: "string \<Rightarrow> nat option" where
  "parseFloat_digits s =
     (if s \<noteq> [] \<and> list_all isDigit s
      then Some (foldl (\<lambda>acc c. 10 * acc + digitValue c) 0 s)
      else None)"


section \<open>Lookup by key: the first match wins\<close>

lemma find_no_match: "(\<forall>x\<in>set xs. \<not> P x) \<Longrightarrow> find P xs = None"
  by (induction xs) auto

lemma find_first_match:
  "xs = pre @ x # post \<Longrightarrow> P x \<Longrightarrow> (\<forall>y\<in>set pre. \<not> P y) \<Longrightarrow> find P xs = Some x"
  by (induction pre arbitrary: xs) auto

lemma find_Some_split:
  "find P xs = Some x \<Longrightarrow> \<exists>pre post. xs = pre @ x # post \<and> P x \<and> (\<forall>y\<in>set pre. \<not> P y)"
proof (induction xs)
  case Nil
  then show ?case by simp
next
  case (Cons a xs)
  show ?case
  proof (cases "P a")
    case True
    with Cons.prems have "a = x" by simp
    with True have "a # xs = [] @ x # xs \<and> P x \<and> (\<forall>y\<in>set []. \<not> P y)" by simp
    then show ?thesis by blast
  next
    case False
    with Cons.prems have "find P xs = Some x" by simp
    from Cons.IH [OF this] obtain pre post
      where "xs = pre @ x # post" "P x" "\<forall>y\<in>set pre. \<not> P y" by blast
    with False have "a # xs = (a # pre) @ x # post \<and> P x \<and> (\<forall>y\<in>set (a # pre). \<not> P y)"
      by simp
    then show ?thesis by blast
  qed
qed

text \<open>A lookup either finds no field with the key, or a first one.\<close>

lemma find_key_cases:
  obtains (absent) "find (\<lambda>f. key f = k) fs = None" "\<forall>f\<in>set fs. key f \<noteq> k"
  | (first) pre f post where "find (\<lambda>f. key f = k) fs = Some f" "fs = pre @ f # post"
      "key f = k" "\<forall>g\<in>set pre. key g \<noteq> k"
proof (cases "find (\<lambda>f. key f = k) fs")
  case None
  then have "\<forall>f\<in>set fs. key f \<noteq> k" by (simp add: find_None_iff)
  with None show ?thesis by (rule absent)
next
  case (Some f)
  from find_Some_split [OF Some] obtain pre post
    where "fs = pre @ f # post" "key f = k" "\<forall>g\<in>set pre. key g \<noteq> k" by blast
  with Some show ?thesis by (rule first)
qed

lemma first_match_unique:
  assumes "fs = pre @ f # post" "key f = k" "\<forall>g\<in>set pre. key g \<noteq> k"
    and "fs = pre' @ f' # post'" "key f' = k" "\<forall>g\<in>set pre'. key g \<noteq> k"
  shows "f' = f"
proof -
  have "find (\<lambda>f. key f = k) fs = Some f"
    using assms(1-3) find_first_match [of fs pre f post "\<lambda>f. key f = k"] by simp
  moreover have "find (\<lambda>f. key f = k) fs = Some f'"
    using assms(4-6) find_first_match [of fs pre' f' post' "\<lambda>f. key f = k"] by simp
  ultimately show ?thesis by simp
qed

lemma getFieldValue_find:
  "getFieldValue m k =
     (case find (\<lambda>f. key f = k) (case m_fields m of None \<Rightarrow> [] | Some l \<Rightarrow> l) of
        None \<Rightarrow> '''' | Some f \<Rightarrow> fvalue f)"
  by (simp add: getFieldValue_def or_str_def split: option.splits)

text \<open>
  C1. Let \<open>fs\<close> be the field list of a metaobject (empty when the metaobject has none) and
  \<open>k\<close> any key. When no field has key \<open>k\<close> the resolver returns \<open>''\<close>; when \<open>f\<close> is the first
  field of \<open>fs\<close> with key \<open>k\<close> (every field before it has another key, whatever comes after
  it, duplicates included) the resolver returns exactly \<open>f\<close>'s value; and it returns \<open>''\<close>
  if and only if no field has key \<open>k\<close> or the first such field has the value \<open>''\<close>. Keys are
  compared as strings, so the match is exact and case-sensitive. The resolver is a total
  function with no error result: it never throws.
\<close>

theorem getFieldValue_first_match:
  "fs = (case m_fields m of None \<Rightarrow> [] | Some l \<Rightarrow> l) \<Longrightarrow>
     ((\<forall>f\<in>set fs. key f \<noteq> k) \<longrightarrow> getFieldValue m k = '''') \<and>
     (\<forall>pre f post. fs = pre @ f # post \<and> key f = k \<and> (\<forall>g\<in>set pre. key g \<noteq> k)
        \<longrightarrow> getFieldValue m k = fvalue f) \<and>
     (getFieldValue m k = '''' \<longleftrightarrow>
        (\<forall>f\<in>set fs. key f \<noteq> k) \<or>
        (\<exists>pre f post. fs = pre @ f # post \<and> key f = k \<and> (\<forall>g\<in>set pre. key g \<noteq> k)
           \<and> fvalue f = ''''))"
proof -
  assume fs: "fs = (case m_fields m of None \<Rightarrow> [] | Some l \<Rightarrow> l)"
  have gv: "getFieldValue m k =
      (case find (\<lambda>f. key f = k) fs of None \<Rightarrow> '''' | Some f \<Rightarrow> fvalue f)"
    unfolding fs by (rule getFieldValue_find)
  have none: "getFieldValue m k = ''''" if "\<forall>f\<in>set fs. key f \<noteq> k"
    using gv find_no_match [of fs "\<lambda>f. key f = k"] that by simp
  have first: "getFieldValue m k = fvalue f"
    if "fs = pre @ f # post" "key f = k" "\<forall>g\<in>set pre. key g \<noteq> k" for pre f post
    using gv find_first_match [of fs pre f post "\<lambda>f. key f = k"] that by simp
  have iff: "getFieldValue m k = '''' \<longleftrightarrow>
        (\<forall>f\<in>set fs. key f \<noteq> k) \<or>
        (\<exists>pre f post. fs = pre @ f # post \<and> key f = k \<and> (\<forall>g\<in>set pre. key g \<noteq> k)
           \<and> fvalue f = '''')"
  proof (cases rule: find_key_cases [where k = k and fs = fs])
    case absent
    with none show ?thesis by simp
  next
    case (first pre f post)
    have val: "getFieldValue m k = fvalue f" using gv first(1) by simp
    have ex: "\<not> (\<forall>f\<in>set fs. key f \<noteq> k)" using first(2,3) by auto
    show ?thesis
    proof
      assume "getFieldValue m k = ''''"
      with val have "fvalue f = ''''" by simp
      with first(2-4) show "(\<forall>f\<in>set fs. key f \<noteq> k) \<or>
        (\<exists>pre f post. fs = pre @ f # post \<and> key f = k \<and> (\<forall>g\<in>set pre. key g \<noteq> k)
           \<and> fvalue f = '''')" by blast
    next
      assume "(\<forall>f\<in>set fs. key f \<noteq> k) \<or>
        (\<exists>pre f post. fs = pre @ f # post \<and> key f = k \<and> (\<forall>g\<in>set pre. key g \<noteq> k)
           \<and> fvalue f = '''')"
      with ex obtain pre' f' post'
        where sp': "fs = pre' @ f' # post'" "key f' = k" "\<forall>g\<in>set pre'. key g \<noteq> k"
          "fvalue f' = ''''" by blast
      from first_match_unique [OF first(2-4) sp'(1-3)] have "f' = f" .
      with val sp'(4) show "getFieldValue m k = ''''" by simp
    qed
  qed
  from none first iff show ?thesis by blast
qed

text \<open>
  At a metaobject with the keys \<open>Heading\<close>, \<open>heading\<close>, \<open>heading\<close>: the first field whose key
  is exactly \<open>heading\<close> gives the value.
\<close>

theorem getFieldValue_first_match_witness:
  "getFieldValue
     \<lparr>m_id = ''gid://shopify/Metaobject/1'', m_type = ''section_hero'',
      m_handle = ''welcome-to-sneaker-store'',
      m_fields = Some
        [\<lparr>key = ''Heading'', fvalue = ''UPPER'', ftype = ''single_line_text_field'',
          reference = None, references = None\<rparr>,
         \<lparr>key = ''heading'', fvalue = ''WELCOME'', ftype = ''single_line_text_field'',
          reference = None, references = None\<rparr>,
         \<lparr>key = ''heading'', fvalue = ''SECOND'', ftype = ''single_line_text_field'',
          reference = None, references = None\<rparr>]\<rparr>
     ''heading'' = ''WELCOME''"
proof -
  let ?f1 = "\<lparr>key = ''Heading'', fvalue = ''UPPER'', ftype = ''single_line_text_field'',
          reference = None, references = None\<rparr>"
  let ?f2 = "\<lparr>key = ''heading'', fvalue = ''WELCOME'', ftype = ''single_line_text_field'',
          reference = None, references = None\<rparr>"
  let ?f3 = "\<lparr>key = ''heading'', fvalue = ''SECOND'', ftype = ''single_line_text_field'',
          reference = None, references = None\<rparr>"
  let ?m = "\<lparr>m_id = ''gid://shopify/Metaobject/1'', m_type = ''section_hero'',
      m_handle = ''welcome-to-sneaker-store'', m_fields = Some [?f1, ?f2, ?f3]\<rparr>"
  have fs: "[?f1, ?f2, ?f3] = (case m_fields ?m of None \<Rightarrow> [] | Some l \<Rightarrow> l)" by simp
  have "\<forall>pre f post. [?f1, ?f2, ?f3] = pre @ f # post \<and> key f = ''heading''
          \<and> (\<forall>g\<in>set pre. key g \<noteq> ''heading'') \<longrightarrow> getFieldValue ?m ''heading'' = fvalue f"
    using getFieldValue_first_match [OF fs, of "''heading''"] by blast
  then have "[?f1, ?f2, ?f3] = [?f1] @ ?f2 # [?f3] \<and> key ?f2 = ''heading''
          \<and> (\<forall>g\<in>set [?f1]. key g \<noteq> ''heading'') \<longrightarrow> getFieldValue ?m ''heading'' = fvalue ?f2"
    by blast
  then show ?thesis by simp
qed

section \<open>References: a single image, a list of nodes\<close>

lemma getFieldReference_find:
  "getFieldReference m k =
     (case find (\<lambda>f. key f = k) (case m_fields m of None \<Rightarrow> [] | Some l \<Rightarrow> l) of
        None \<Rightarrow> None | Some f \<Rightarrow> reference f)"
  by (simp add: getFieldReference_def split: option.splits)

lemma getFieldReferences_find:
  "getFieldReferences m k =
     (case find (\<lambda>f. key f = k) (case m_fields m of None \<Rightarrow> [] | Some l \<Rightarrow> l) of
        None \<Rightarrow> []
      | Some f \<Rightarrow>
          (case references f of
             None \<Rightarrow> []
           | Some c \<Rightarrow> (case nodes c of None \<Rightarrow> [] | Some ns \<Rightarrow> ns)))"
  by (simp add: getFieldReferences_def split: option.splits)

text \<open>
  C6. Let \<open>fs\<close> be the field list of a metaobject and \<open>k\<close> any key. The image resolved from
  the single reference of key \<open>k\<close> is absent (\<open>None\<close>, the source's \<open>null\<close>) when no field has
  key \<open>k\<close>, when the first such field has no reference, and when its reference carries no
  image; when the reference carries an image, the result is that image narrowed to
  \<open>{url, altText, width, height}\<close>, with a missing \<open>altText\<close> replaced by \<open>''\<close>. The hero's
  background image is this resolution at the key \<open>background_image\<close>. The functions are
  total and have no error result: absence is a value.
\<close>

theorem backgroundImage_absent_or_narrowed:
  "fs = (case m_fields m of None \<Rightarrow> [] | Some l \<Rightarrow> l) \<Longrightarrow>
     ((\<forall>f\<in>set fs. key f \<noteq> k) \<longrightarrow> narrowImage (getFieldReference m k) = None) \<and>
     (\<forall>pre f post. fs = pre @ f # post \<and> key f = k \<and> (\<forall>g\<in>set pre. key g \<noteq> k) \<longrightarrow>
        (reference f = None \<longrightarrow> narrowImage (getFieldReference m k) = None) \<and>
        (\<forall>r. reference f = Some r \<and> ref_image r = None
           \<longrightarrow> narrowImage (getFieldReference m k) = None) \<and>
        (\<forall>r img. reference f = Some r \<and> ref_image r = Some img
           \<longrightarrow> narrowImage (getFieldReference m k) =
                 Some \<lparr>url = url img,
                       altText = Some (case altText img of None \<Rightarrow> '''' | Some a \<Rightarrow> a),
                       width = width img,
                       height = height img\<rparr>)) \<and>
     backgroundImage m = narrowImage (getFieldReference m ''background_image'')"
proof -
  assume fs: "fs = (case m_fields m of None \<Rightarrow> [] | Some l \<Rightarrow> l)"
  have gr: "getFieldReference m k =
      (case find (\<lambda>f. key f = k) fs of None \<Rightarrow> None | Some f \<Rightarrow> reference f)"
    unfolding fs by (rule getFieldReference_find)
  have none: "narrowImage (getFieldReference m k) = None" if "\<forall>f\<in>set fs. key f \<noteq> k"
    using gr find_no_match [of fs "\<lambda>f. key f = k"] that by (simp add: narrowImage_def)
  have first: "getFieldReference m k = reference f"
    if "fs = pre @ f # post" "key f = k" "\<forall>g\<in>set pre. key g \<noteq> k" for pre f post
    using gr find_first_match [of fs pre f post "\<lambda>f. key f = k"] that by simp
  have noref: "narrowImage (getFieldReference m k) = None"
    if "fs = pre @ f # post" "key f = k" "\<forall>g\<in>set pre. key g \<noteq> k" "reference f = None"
    for pre f post
    using first [OF that(1-3)] that(4) by (simp add: narrowImage_def)
  have noimg: "narrowImage (getFieldReference m k) = None"
    if "fs = pre @ f # post" "key f = k" "\<forall>g\<in>set pre. key g \<noteq> k"
      "reference f = Some r" "ref_image r = None"
    for pre f post r
    using first [OF that(1-3)] that(4,5) by (simp add: narrowImage_def)
  have img: "narrowImage (getFieldReference m k) =
        Some \<lparr>url = url img,
              altText = Some (case altText img of None \<Rightarrow> '''' | Some a \<Rightarrow> a),
              width = width img,
              height = height img\<rparr>"
    if "fs = pre @ f # post" "key f = k" "\<forall>g\<in>set pre. key g \<noteq> k"
      "reference f = Some r" "ref_image r = Some img"
    for pre f post r img
    using first [OF that(1-3)] that(4,5)
    by (simp add: narrowImage_def or_str_def split: option.splits)
  have bg: "backgroundImage m = narrowImage (getFieldReference m ''background_image'')"
    by (simp add: backgroundImage_def)
  show ?thesis
    apply (intro conjI allI impI)
    subgoal by (rule none)
    subgoal by (elim conjE, rule noref)
    subgoal by (elim conjE, rule noimg)
    subgoal by (elim conjE, rule img)
    subgoal by (rule bg)
    done
qed

text \<open>
  At a hero metaobject whose \<open>background_image\<close> field references a media image without
  alternative text.
\<close>

theorem backgroundImage_absent_or_narrowed_witness:
  "narrowImage (getFieldReference
     \<lparr>m_id = ''gid://shopify/Metaobject/1'', m_type = ''section_hero'',
      m_handle = ''welcome-to-sneaker-store'',
      m_fields = Some
        [\<lparr>key = ''heading'', fvalue = ''WELCOME'', ftype = ''single_line_text_field'',
          reference = None, references = None\<rparr>,
         \<lparr>key = ''background_image'', fvalue = ''gid://shopify/MediaImage/7'',
          ftype = ''file_reference'',
          reference = Some \<lparr>ref_image = Some \<lparr>url = ''https://cdn.example/hero.jpg'',
            altText = None, width = Some 1920, height = Some 1080\<rparr>\<rparr>,
          references = None\<rparr>]\<rparr>
     ''background_image'')
   = Some \<lparr>url = ''https://cdn.example/hero.jpg'', altText = Some '''',
           width = Some 1920, height = Some 1080\<rparr>"
proof -
  let ?img = "\<lparr>url = ''https://cdn.example/hero.jpg'',
            altText = None, width = Some 1920, height = Some 1080\<rparr>"
  let ?r = "\<lparr>ref_image = Some ?img\<rparr>"
  let ?f1 = "\<lparr>key = ''heading'', fvalue = ''WELCOME'', ftype = ''single_line_text_field'',
          reference = None, references = None\<rparr>"
  let ?f2 = "\<lparr>key = ''background_image'', fvalue = ''gid://shopify/MediaImage/7'',
          ftype = ''file_reference'', reference = Some ?r, references = None\<rparr>"
  let ?m = "\<lparr>m_id = ''gid://shopify/Metaobject/1'', m_type = ''section_hero'',
      m_handle = ''welcome-to-sneaker-store'', m_fields = Some [?f1, ?f2]\<rparr>"
  let ?k = "''background_image''"
  have fs: "[?f1, ?f2] = (case m_fields ?m of None \<Rightarrow> [] | Some l \<Rightarrow> l)" by simp
  have "\<forall>pre f post. [?f1, ?f2] = pre @ f # post \<and> key f = ?k
          \<and> (\<forall>g\<in>set pre. key g \<noteq> ?k) \<longrightarrow>
          (\<forall>r img. reference f = Some r \<and> ref_image r = Some img
           \<longrightarrow> narrowImage (getFieldReference ?m ?k) =
                 Some \<lparr>url = url img,
                       altText = Some (case altText img of None \<Rightarrow> '''' | Some a \<Rightarrow> a),
                       width = width img,
                       height = height img\<rparr>)"
    using backgroundImage_absent_or_narrowed [OF fs, of ?k] by blast
  then have "[?f1, ?f2] = [?f1] @ ?f2 # [] \<and> key ?f2 = ?k
          \<and> (\<forall>g\<in>set [?f1]. key g \<noteq> ?k) \<longrightarrow>
          (reference ?f2 = Some ?r \<and> ref_image ?r = Some ?img
           \<longrightarrow> narrowImage (getFieldReference ?m ?k) =
                 Some \<lparr>url = url ?img,
                       altText = Some (case altText ?img of None \<Rightarrow> '''' | Some a \<Rightarrow> a),
                       width = width ?img,
                       height = height ?img\<rparr>)"
    by blast
  then show ?thesis by simp
qed

text \<open>
  C7. Let \<open>fs\<close> be the field list of a metaobject and \<open>k\<close> any key. The reference-list
  resolver always returns a list (its result type has no null): the list has length 0 when
  no field has key \<open>k\<close>, when the first such field has no \<open>references\<close> (or \<open>references\<close>
  without \<open>nodes\<close>), and when its \<open>nodes\<close> list is empty, so the three cases give the same
  result \<open>[]\<close>; when \<open>nodes\<close> is present the result is that list.
\<close>

theorem getFieldReferences_never_null:
  "fs = (case m_fields m of None \<Rightarrow> [] | Some l \<Rightarrow> l) \<Longrightarrow>
     ((\<forall>f\<in>set fs. key f \<noteq> k) \<longrightarrow>
        getFieldReferences m k = [] \<and> length (getFieldReferences m k) = 0) \<and>
     (\<forall>pre f post. fs = pre @ f # post \<and> key f = k \<and> (\<forall>g\<in>set pre. key g \<noteq> k) \<longrightarrow>
        (references f = None \<longrightarrow>
           getFieldReferences m k = [] \<and> length (getFieldReferences m k) = 0) \<and>
        (\<forall>c. references f = Some c \<and> nodes c = None \<longrightarrow>
           getFieldReferences m k = [] \<and> length (getFieldReferences m k) = 0) \<and>
        (\<forall>c. references f = Some c \<and> nodes c = Some [] \<longrightarrow>
           getFieldReferences m k = [] \<and> length (getFieldReferences m k) = 0) \<and>
        (\<forall>c ns. references f = Some c \<and> nodes c = Some ns \<longrightarrow>
           getFieldReferences m k = ns))"
proof -
  assume fs: "fs = (case m_fields m of None \<Rightarrow> [] | Some l \<Rightarrow> l)"
  have gr: "getFieldReferences m k =
      (case find (\<lambda>f. key f = k) fs of
         None \<Rightarrow> []
       | Some f \<Rightarrow>
          (case references f of
             None \<Rightarrow> []
           | Some c \<Rightarrow> (case nodes c of None \<Rightarrow> [] | Some ns \<Rightarrow> ns)))"
    unfolding fs by (rule getFieldReferences_find)
  have none: "getFieldReferences m k = []" if "\<forall>f\<in>set fs. key f \<noteq> k"
    using gr find_no_match [of fs "\<lambda>f. key f = k"] that by simp
  have first: "getFieldReferences m k =
      (case references f of
         None \<Rightarrow> []
       | Some c \<Rightarrow> (case nodes c of None \<Rightarrow> [] | Some ns \<Rightarrow> ns))"
    if "fs = pre @ f # post" "key f = k" "\<forall>g\<in>set pre. key g \<noteq> k" for pre f post
    using gr find_first_match [of fs pre f post "\<lambda>f. key f = k"] that by simp
  have norefs: "getFieldReferences m k = []"
    if "fs = pre @ f # post" "key f = k" "\<forall>g\<in>set pre. key g \<noteq> k" "references f = None"
    for pre f post
    using first [OF that(1-3)] that(4) by simp
  have nonodes: "getFieldReferences m k = []"
    if "fs = pre @ f # post" "key f = k" "\<forall>g\<in>set pre. key g \<noteq> k"
      "references f = Some c" "nodes c = None"
    for pre f post c
    using first [OF that(1-3)] that(4,5) by simp
  have somenodes: "getFieldReferences m k = ns"
    if "fs = pre @ f # post" "key f = k" "\<forall>g\<in>set pre. key g \<noteq> k"
      "references f = Some c" "nodes c = Some ns"
    for pre f post c ns
    using first [OF that(1-3)] that(4,5) by simp
  have empty: "getFieldReferences m k = []"
    if "fs = pre @ f # post" "key f = k" "\<forall>g\<in>set pre. key g \<noteq> k"
      "references f = Some c" "nodes c = Some []"
    for pre f post c
    using somenodes [OF that] .
  have len: "length (getFieldReferences m k) = 0" if "getFieldReferences m k = []"
    using that by simp
  from none norefs nonodes somenodes empty len show ?thesis by blast
qed

text \<open>
  At a product showcase metaobject with no \<open>products\<close> field (the heading only): the
  resolver returns the empty list.
\<close>

theorem getFieldReferences_never_null_witness:
  "getFieldReferences
     \<lparr>m_id = ''gid://shopify/Metaobject/2'', m_type = ''section_product_showcase'',
      m_handle = ''our-products'',
      m_fields = Some
        [\<lparr>key = ''heading'', fvalue = ''WELCOME'', ftype = ''single_line_text_field'',
          reference = None, references = None\<rparr>]\<rparr>
     ''products'' = []
   \<and> getFieldReferences
     \<lparr>m_id = ''gid://shopify/Metaobject/2'', m_type = ''section_product_showcase'',
      m_handle = ''our-products'',
      m_fields = Some
        [\<lparr>key = ''heading'', fvalue = ''WELCOME'', ftype = ''single_line_text_field'',
          reference = None, references = None\<rparr>]\<rparr>
     ''heading'' = []"
proof -
  let ?f1 = "\<lparr>key = ''heading'', fvalue = ''WELCOME'', ftype = ''single_line_text_field'',
          reference = None, references = None\<rparr>"
  let ?m = "\<lparr>m_id = ''gid://shopify/Metaobject/2'', m_type = ''section_product_showcase'',
      m_handle = ''our-products'', m_fields = Some [?f1]\<rparr>"
  have fs: "[?f1] = (case m_fields ?m of None \<Rightarrow> [] | Some l \<Rightarrow> l)" by simp
  note absent = getFieldReferences_never_null [OF fs, of "''products''", THEN conjunct1]
  have a: "getFieldReferences ?m ''products'' = []"
    using absent by simp
  note norefs = getFieldReferences_never_null [OF fs, of "''heading''", THEN conjunct2,
      rule_format, of "[]" ?f1 "[]", THEN conjunct1]
  have b: "getFieldReferences ?m ''heading'' = []"
    using norefs by simp
  from a b show ?thesis by simp
qed

section \<open>Projection: filter, then map\<close>

lemma mapE_Inr_map: "mapE f xs = Inr ys \<Longrightarrow> map Inr ys = map f xs"
  by (induction xs arbitrary: ys) (auto split: sum.splits)

lemma mapE_length: "mapE f xs = Inr ys \<Longrightarrow> length ys = length xs"
  by (induction xs arbitrary: ys) (auto split: sum.splits)

lemma mapE_total: "(\<forall>x\<in>set xs. \<exists>y. f x = Inr y) \<Longrightarrow> \<exists>ys. mapE f xs = Inr ys"
proof (induction xs)
  case Nil
  then show ?case by simp
next
  case (Cons a xs)
  from Cons.prems obtain y where y: "f a = Inr y" by auto
  from Cons.prems have "\<forall>x\<in>set xs. \<exists>y. f x = Inr y" by simp
  from Cons.IH [OF this] obtain ys where "mapE f xs = Inr ys" by blast
  with y have "mapE f (a # xs) = Inr (y # ys)" by simp
  then show ?case by blast
qed

lemma mapE_set:
  "mapE f xs = Inr ys \<Longrightarrow> y \<in> set ys \<Longrightarrow> \<exists>x\<in>set xs. f x = Inr y"
  by (induction xs arbitrary: ys) (auto split: sum.splits)

text \<open>The general shape of \<open>xs.filter(pred).map(mapper)\<close>.\<close>

lemma filter_map_projection:
  assumes "mapE mapper (filter pred xs) = Inr ys"
  shows "length ys \<le> length xs"
    and "map Inr ys = map mapper (filter pred xs)"
    and "subseq (filter pred xs) xs"
    and "\<forall>x\<in>set (filter pred xs). pred x"
    and "\<forall>x\<in>set xs. \<not> pred x \<longrightarrow> x \<notin> set (filter pred xs)"
    and "\<forall>y\<in>set ys. \<exists>x\<in>set xs. pred x \<and> mapper x = Inr y"
proof -
  have "length ys = length (filter pred xs)" using assms by (rule mapE_length)
  then show "length ys \<le> length xs" by simp
  show "map Inr ys = map mapper (filter pred xs)" using assms by (rule mapE_Inr_map)
  show "subseq (filter pred xs) xs" by simp
  show "\<forall>x\<in>set (filter pred xs). pred x" by simp
  show "\<forall>x\<in>set xs. \<not> pred x \<longrightarrow> x \<notin> set (filter pred xs)" by simp
  show "\<forall>y\<in>set ys. \<exists>x\<in>set xs. pred x \<and> mapper x = Inr y"
  proof
    fix y assume "y \<in> set ys"
    from mapE_set [OF assms this] obtain x where "x \<in> set (filter pred xs)" "mapper x = Inr y"
      by blast
    then show "\<exists>x\<in>set xs. pred x \<and> mapper x = Inr y" by auto
  qed
qed

text \<open>On an entry that passes its predicate the mapper does not throw.\<close>

lemma productPred_iff:
  "productPred x \<longleftrightarrow>
     (\<exists>n. x = Some n \<and> truthy (n_id n) \<and> truthy (n_title n) \<and> n_priceRange n \<noteq> None)"
  by (cases x) (simp_all add: productPred_def)

lemma reviewPred_iff: "reviewPred x \<longleftrightarrow> (\<exists>n. x = Some n \<and> n_fields n \<noteq> None)"
  by (cases x) (simp_all add: reviewPred_def)

lemma productMap_total: "productPred x \<Longrightarrow> \<exists>p. productMap x = Inr p"
  by (auto simp: productPred_iff productMap_def)

lemma reviewMap_Some:
  "reviewMap parseFloat encodeURIComponent (Some r) =
     Inr \<lparr>r_id = n_id r,
          customerName = getReviewField r ''customer_name'',
          customerRole = getReviewField r ''customer_role'',
          customerImage =
            or_str (getReviewImageField r ''customer_img'')
              (''https://ui-avatars.com/api/?name=''
                 @ encodeURIComponent (getReviewField r ''customer_name'')
                 @ ''&background=667eea&color=fff&size=100&bold=true''),
          rating = parseFloat (or_str (getReviewField r ''rating'') ''5''),
          reviewText = getReviewField r ''review_text''\<rparr>"
  by (simp add: reviewMap_def Let_def)

lemma reviewMap_total:
  "reviewPred x \<Longrightarrow> \<exists>r. reviewMap parseFloat encodeURIComponent x = Inr r"
  by (auto simp: reviewPred_iff reviewMap_Some)

lemma products_total: "\<exists>ps. products productNodes = Inr ps"
  unfolding products_def by (rule mapE_total) (simp add: productMap_total)

lemma reviews_total: "\<exists>rs. reviews parseFloat encodeURIComponent reviewNodes = Inr rs"
  unfolding reviews_def by (rule mapE_total) (simp add: reviewMap_total)

text \<open>
  C2. For every list \<open>xs\<close>, predicate and mapper, when \<open>xs.filter(pred).map(mapper)\<close>
  returns \<open>ys\<close>: \<open>ys\<close> is no longer than \<open>xs\<close>; \<open>ys\<close> is, entry by entry and in the same order,
  the image under the mapper of the entries of \<open>xs\<close> that pass the predicate, and these
  form a subsequence of \<open>xs\<close>; an entry that fails the predicate is not among them,
  whatever the mapper would return for it. The resolved products and the resolved reviews
  are such projections, and they always return: every product comes from a non-null node
  whose \<open>id\<close> and \<open>title\<close> are non-empty strings and whose \<open>priceRange\<close> is present, every
  review from a non-null node with a \<open>fields\<close> list.
\<close>

theorem projection_filter_map:
  "(\<forall>ys. mapE mapper (filter pred xs) = Inr ys \<longrightarrow>
      length ys \<le> length xs \<and>
      map Inr ys = map mapper (filter pred xs) \<and>
      subseq (filter pred xs) xs \<and>
      (\<forall>x\<in>set xs. \<not> pred x \<longrightarrow> x \<notin> set (filter pred xs))) \<and>
   (\<exists>ps. products productNodes = Inr ps \<and>
      length ps \<le> length productNodes \<and>
      map Inr ps = map productMap (filter productPred productNodes) \<and>
      subseq (filter productPred productNodes) productNodes \<and>
      (\<forall>x\<in>set productNodes. \<not> productPred x \<longrightarrow> x \<notin> set (filter productPred productNodes)) \<and>
      (\<forall>p\<in>set ps. \<exists>n. Some n \<in> set productNodes \<and> productMap (Some n) = Inr p \<and>
          truthy (n_id n) \<and> truthy (n_title n) \<and> n_priceRange n \<noteq> None)) \<and>
   (\<exists>rs. reviews parseFloat encodeURIComponent reviewNodes = Inr rs \<and>
      length rs \<le> length reviewNodes \<and>
      map Inr rs = map (reviewMap parseFloat encodeURIComponent) (filter reviewPred reviewNodes) \<and>
      subseq (filter reviewPred reviewNodes) reviewNodes \<and>
      (\<forall>x\<in>set reviewNodes. \<not> reviewPred x \<longrightarrow> x \<notin> set (filter reviewPred reviewNodes)) \<and>
      (\<forall>r\<in>set rs. \<exists>n. Some n \<in> set reviewNodes \<and>
          reviewMap parseFloat encodeURIComponent (Some n) = Inr r \<and> n_fields n \<noteq> None))"
proof (intro conjI)
  show "\<forall>ys. mapE mapper (filter pred xs) = Inr ys \<longrightarrow>
      length ys \<le> length xs \<and>
      map Inr ys = map mapper (filter pred xs) \<and>
      subseq (filter pred xs) xs \<and>
      (\<forall>x\<in>set xs. \<not> pred x \<longrightarrow> x \<notin> set (filter pred xs))"
    using filter_map_projection(1,2) [of mapper pred xs] by simp
next
  from products_total obtain ps where ps: "products productNodes = Inr ps" by blast
  then have m: "mapE productMap (filter productPred productNodes) = Inr ps"
    by (simp add: products_def)
  have src: "\<forall>p\<in>set ps. \<exists>n. Some n \<in> set productNodes \<and> productMap (Some n) = Inr p \<and>
          truthy (n_id n) \<and> truthy (n_title n) \<and> n_priceRange n \<noteq> None"
  proof
    fix p assume "p \<in> set ps"
    with filter_map_projection(6) [OF m] obtain x
      where x: "x \<in> set productNodes" "productPred x" "productMap x = Inr p" by blast
    from x(2) obtain n where "x = Some n" "truthy (n_id n)" "truthy (n_title n)"
      "n_priceRange n \<noteq> None" unfolding productPred_iff by blast
    with x(1,3) show "\<exists>n. Some n \<in> set productNodes \<and> productMap (Some n) = Inr p \<and>
          truthy (n_id n) \<and> truthy (n_title n) \<and> n_priceRange n \<noteq> None" by blast
  qed
  from ps filter_map_projection(1,2) [OF m] src
  show "\<exists>ps. products productNodes = Inr ps \<and>
      length ps \<le> length productNodes \<and>
      map Inr ps = map productMap (filter productPred productNodes) \<and>
      subseq (filter productPred productNodes) productNodes \<and>
      (\<forall>x\<in>set productNodes. \<not> productPred x \<longrightarrow> x \<notin> set (filter productPred productNodes)) \<and>
      (\<forall>p\<in>set ps. \<exists>n. Some n \<in> set productNodes \<and> productMap (Some n) = Inr p \<and>
          truthy (n_id n) \<and> truthy (n_title n) \<and> n_priceRange n \<noteq> None)"
    by simp
next
  let ?f = "reviewMap parseFloat encodeURIComponent"
  from reviews_total obtain rs
    where rs: "reviews parseFloat encodeURIComponent reviewNodes = Inr rs" by blast
  then have m: "mapE ?f (filter reviewPred reviewNodes) = Inr rs"
    by (simp add: reviews_def)
  have src: "\<forall>r\<in>set rs. \<exists>n. Some n \<in> set reviewNodes \<and> ?f (Some n) = Inr r \<and> n_fields n \<noteq> None"
  proof
    fix r assume "r \<in> set rs"
    with filter_map_projection(6) [OF m] obtain x
      where x: "x \<in> set reviewNodes" "reviewPred x" "?f x = Inr r" by blast
    from x(2) obtain n where "x = Some n" "n_fields n \<noteq> None"
      unfolding reviewPred_iff by blast
    with x(1,3) show "\<exists>n. Some n \<in> set reviewNodes \<and> ?f (Some n) = Inr r \<and> n_fields n \<noteq> None"
      by blast
  qed
  from rs filter_map_projection(1,2) [OF m] src
  show "\<exists>rs. reviews parseFloat encodeURIComponent reviewNodes = Inr rs \<and>
      length rs \<le> length reviewNodes \<and>
      map Inr rs = map ?f (filter reviewPred reviewNodes) \<and>
      subseq (filter reviewPred reviewNodes) reviewNodes \<and>
      (\<forall>x\<in>set reviewNodes. \<not> reviewPred x \<longrightarrow> x \<notin> set (filter reviewPred reviewNodes)) \<and>
      (\<forall>r\<in>set rs. \<exists>n. Some n \<in> set reviewNodes \<and> ?f (Some n) = Inr r \<and> n_fields n \<noteq> None)"
    by simp
qed

text \<open>
  At a list of four nodes (a product, a null entry, a node without a title, a product): the two
  products are returned, in their input order.
\<close>

theorem projection_filter_map_witness:
  "products
     [Some \<lparr>n_id = Some ''gid://shopify/Product/1'', n_title = Some ''Runner'',
            n_handle = Some ''runner'',
            n_priceRange = Some \<lparr>minVariantPrice = \<lparr>amount = ''99.0'', currencyCode = ''USD''\<rparr>\<rparr>,
            n_featuredImage = None, n_fields = None\<rparr>,
      None,
      Some \<lparr>n_id = Some ''gid://shopify/Product/2'', n_title = None,
            n_handle = Some ''ghost'',
            n_priceRange = Some \<lparr>minVariantPrice = \<lparr>amount = ''10.0'', currencyCode = ''USD''\<rparr>\<rparr>,
            n_featuredImage = None, n_fields = None\<rparr>,
      Some \<lparr>n_id = Some ''gid://shopify/Product/3'', n_title = Some ''Trail'',
            n_handle = Some ''trail'',
            n_priceRange = Some \<lparr>minVariantPrice = \<lparr>amount = ''120.0'', currencyCode = ''USD''\<rparr>\<rparr>,
            n_featuredImage = None, n_fields = None\<rparr>]
   = Inr [\<lparr>p_id = Some ''gid://shopify/Product/1'', p_title = Some ''Runner'',
           p_priceRange = \<lparr>minVariantPrice = \<lparr>amount = ''99.0'', currencyCode = ''USD''\<rparr>\<rparr>,
           p_featuredImage = None, p_handle = Some ''runner''\<rparr>,
          \<lparr>p_id = Some ''gid://shopify/Product/3'', p_title = Some ''Trail'',
           p_priceRange = \<lparr>minVariantPrice = \<lparr>amount = ''120.0'', currencyCode = ''USD''\<rparr>\<rparr>,
           p_featuredImage = None, p_handle = Some ''trail''\<rparr>]"
proof -
  let ?L = "[Some \<lparr>n_id = Some ''gid://shopify/Product/1'', n_title = Some ''Runner'',
            n_handle = Some ''runner'',
            n_priceRange = Some \<lparr>minVariantPrice = \<lparr>amount = ''99.0'', currencyCode = ''USD''\<rparr>\<rparr>,
            n_featuredImage = None, n_fields = None\<rparr>,
      None,
      Some \<lparr>n_id = Some ''gid://shopify/Product/2'', n_title = None,
            n_handle = Some ''ghost'',
            n_priceRange = Some \<lparr>minVariantPrice = \<lparr>amount = ''10.0'', currencyCode = ''USD''\<rparr>\<rparr>,
            n_featuredImage = None, n_fields = None\<rparr>,
      Some \<lparr>n_id = Some ''gid://shopify/Product/3'', n_title = Some ''Trail'',
            n_handle = Some ''trail'',
            n_priceRange = Some \<lparr>minVariantPrice = \<lparr>amount = ''120.0'', currencyCode = ''USD''\<rparr>\<rparr>,
            n_featuredImage = None, n_fields = None\<rparr>]"
  note t = projection_filter_map [where productNodes = ?L, THEN conjunct2, THEN conjunct1]
  from t obtain ps where ps: "products ?L = Inr ps"
    and img: "map Inr ps = map productMap (filter productPred ?L)"
    by (elim exE conjE)
  let ?out = "[\<lparr>p_id = Some ''gid://shopify/Product/1'', p_title = Some ''Runner'',
           p_priceRange = \<lparr>minVariantPrice = \<lparr>amount = ''99.0'', currencyCode = ''USD''\<rparr>\<rparr>,
           p_featuredImage = None, p_handle = Some ''runner''\<rparr>,
       \<lparr>p_id = Some ''gid://shopify/Product/3'', p_title = Some ''Trail'',
           p_priceRange = \<lparr>minVariantPrice = \<lparr>amount = ''120.0'', currencyCode = ''USD''\<rparr>\<rparr>,
           p_featuredImage = None, p_handle = Some ''trail''\<rparr>]"
  have "map productMap (filter productPred ?L) = map Inr ?out"
    by (simp add: productPred_def productMap_def truthy_def)
  with img have "map Inr ps = (map Inr ?out :: (error + product) list)" by (rule trans)
  then have "ps = ?out" by (rule map_injective) (simp add: inj_def)
  with ps show ?thesis by simp
qed

section \<open>Reviews: what is kept, the avatar, the rating\<close>

lemma getReviewField_find:
  "n_fields n = Some fs \<Longrightarrow>
     getReviewField n k =
       (case find (\<lambda>f. key f = k) fs of None \<Rightarrow> '''' | Some f \<Rightarrow> fvalue f)"
  by (simp add: getReviewField_def or_str_def split: option.splits)

lemma getReviewImageField_find:
  "n_fields n = Some fs \<Longrightarrow>
     getReviewImageField n k =
       (case find (\<lambda>f. key f = k) fs of
          None \<Rightarrow> ''''
        | Some f \<Rightarrow>
            (case reference f of
               None \<Rightarrow> ''''
             | Some r \<Rightarrow> (case ref_image r of None \<Rightarrow> '''' | Some img \<Rightarrow> url img)))"
  by (simp add: getReviewImageField_def)

lemma customerImage_reviewMap:
  "reviewMap parseFloat encodeURIComponent (Some n) = Inr rv \<Longrightarrow>
     customerName rv = getReviewField n ''customer_name'' \<and>
     customerImage rv =
       or_str (getReviewImageField n ''customer_img'')
         (''https://ui-avatars.com/api/?name='' @ encodeURIComponent (customerName rv)
            @ ''&background=667eea&color=fff&size=100&bold=true'')"
  by (auto simp: reviewMap_Some)

lemma rating_reviewMap:
  "reviewMap parseFloat encodeURIComponent (Some n) = Inr rv \<Longrightarrow>
     rating rv = parseFloat (or_str (getReviewField n ''rating'') ''5'')"
  by (auto simp: reviewMap_Some)

lemma reviews_sources:
  assumes "reviews parseFloat encodeURIComponent reviewNodes = Inr rs" and "rv \<in> set rs"
  shows "\<exists>n. Some n \<in> set reviewNodes \<and> n_fields n \<noteq> None \<and>
           reviewMap parseFloat encodeURIComponent (Some n) = Inr rv"
proof -
  from assms(1)
  have m: "mapE (reviewMap parseFloat encodeURIComponent) (filter reviewPred reviewNodes) = Inr rs"
    by (simp add: reviews_def)
  from mapE_set [OF m assms(2)] obtain x
    where x: "x \<in> set reviewNodes" "reviewPred x"
      "reviewMap parseFloat encodeURIComponent x = Inr rv" by auto
  from x(2) obtain n where "x = Some n" "n_fields n \<noteq> None" unfolding reviewPred_iff by blast
  with x(1,3) show ?thesis by blast
qed

text \<open>
  C3 as the code has it. The reviews filter is \<open>node && node.fields\<close>: it looks at the
  \<open>fields\<close> list only, never at \<open>customer_name\<close>. The resolved reviews are, in input order,
  the images of the non-null entries that have a \<open>fields\<close> list; these are exactly the
  entries kept; and an entry with a \<open>fields\<close> list but no \<open>customer_name\<close> field is kept: a
  review with its \<open>id\<close> and with the customer name \<open>''\<close> is in the result.
\<close>

theorem reviews_keep_entries_without_name:
  "\<exists>rs. reviews parseFloat encodeURIComponent reviewNodes = Inr rs \<and>
     map Inr rs = map (reviewMap parseFloat encodeURIComponent) (filter reviewPred reviewNodes) \<and>
     subseq (filter reviewPred reviewNodes) reviewNodes \<and>
     (\<forall>x\<in>set reviewNodes.
        x \<in> set (filter reviewPred reviewNodes) \<longleftrightarrow> (\<exists>n. x = Some n \<and> n_fields n \<noteq> None)) \<and>
     (\<forall>n fs. Some n \<in> set reviewNodes \<and> n_fields n = Some fs
          \<and> (\<forall>f\<in>set fs. key f \<noteq> ''customer_name'') \<longrightarrow>
        (\<exists>rv\<in>set rs. reviewMap parseFloat encodeURIComponent (Some n) = Inr rv
           \<and> r_id rv = n_id n \<and> customerName rv = ''''))"
proof -
  let ?f = "reviewMap parseFloat encodeURIComponent"
  from reviews_total obtain rs
    where rs: "reviews parseFloat encodeURIComponent reviewNodes = Inr rs" by blast
  then have m: "mapE ?f (filter reviewPred reviewNodes) = Inr rs"
    by (simp add: reviews_def)
  have img: "map Inr rs = map ?f (filter reviewPred reviewNodes)"
    using m by (rule mapE_Inr_map)
  have kept: "\<forall>x\<in>set reviewNodes.
        x \<in> set (filter reviewPred reviewNodes) \<longleftrightarrow> (\<exists>n. x = Some n \<and> n_fields n \<noteq> None)"
    by (simp add: reviewPred_iff)
  have nameless: "\<exists>rv\<in>set rs. ?f (Some n) = Inr rv \<and> r_id rv = n_id n \<and> customerName rv = ''''"
    if "Some n \<in> set reviewNodes" "n_fields n = Some fs" "\<forall>f\<in>set fs. key f \<noteq> ''customer_name''"
    for n fs
  proof -
    from that(1,2) have "Some n \<in> set (filter reviewPred reviewNodes)"
      by (simp add: reviewPred_iff)
    then have "?f (Some n) \<in> set (map ?f (filter reviewPred reviewNodes))" by simp
    then have "?f (Some n) \<in> set (map Inr rs)" by (simp only: img)
    then have "?f (Some n) \<in> Inr ` set rs" by (simp only: set_map)
    then obtain rv where rv: "rv \<in> set rs" "?f (Some n) = Inr rv" by blast
    have "getReviewField n ''customer_name'' = ''''"
      using getReviewField_find [OF that(2), of "''customer_name''"]
        find_no_match [of fs "\<lambda>f. key f = ''customer_name''"] that(3) by simp
    with rv(2) have "r_id rv = n_id n \<and> customerName rv = ''''"
      by (auto simp: reviewMap_Some)
    with rv show ?thesis by blast
  qed
  show ?thesis
    apply (rule exI [of _ rs])
    apply (intro conjI allI impI)
    subgoal by (rule rs)
    subgoal by (rule img)
    subgoal by simp
    subgoal by (rule kept)
    subgoal by (elim conjE, rule nameless)
    done
qed

text \<open>
  The claim fails at a list of two review nodes of which the second has a \<open>fields\<close> list
  (its review text) and no \<open>customer_name\<close>: the second review is in the result, with the
  customer name \<open>''\<close> and the avatar built from the empty name.
\<close>

theorem reviews_entry_without_name_counterexample:
  "reviews parseFloat_digits encodeURIComponent_bytes
     [Some \<lparr>n_id = Some ''gid://shopify/Metaobject/11'', n_title = None, n_handle = None,
            n_priceRange = None, n_featuredImage = None,
            n_fields = Some
              [\<lparr>key = ''customer_name'', fvalue = ''Ann Lee'',
                ftype = ''single_line_text_field'', reference = None\<rparr>,
               \<lparr>key = ''rating'', fvalue = ''4'', ftype = ''number_decimal'',
                reference = None\<rparr>]\<rparr>,
      Some \<lparr>n_id = Some ''gid://shopify/Metaobject/12'', n_title = None, n_handle = None,
            n_priceRange = None, n_featuredImage = None,
            n_fields = Some
              [\<lparr>key = ''review_text'', fvalue = ''Great'',
                ftype = ''multi_line_text_field'', reference = None\<rparr>]\<rparr>]
   = Inr
     [\<lparr>r_id = Some ''gid://shopify/Metaobject/11'', customerName = ''Ann Lee'',
       customerRole = '''',
       customerImage =
         ''https://ui-avatars.com/api/?name=Ann%20Lee&background=667eea&color=fff&size=100&bold=true'',
       rating = Some 4, reviewText = ''''\<rparr>,
      \<lparr>r_id = Some ''gid://shopify/Metaobject/12'', customerName = '''',
       customerRole = '''',
       customerImage =
         ''https://ui-avatars.com/api/?name=&background=667eea&color=fff&size=100&bold=true'',
       rating = Some 5, reviewText = ''Great''\<rparr>]"
  by (simp add: reviews_def reviewPred_def reviewMap_Some getReviewField_def
      getReviewImageField_def or_str_def encodeURIComponent_bytes_def unreserved_def
      hexDigit_def parseFloat_digits_def isDigit_def digitValue_def)

text \<open>At that list, the entry without a customer name is among the resolved reviews.\<close>

theorem reviews_keep_entries_without_name_witness:
  "\<exists>rs. reviews parseFloat_digits encodeURIComponent_bytes
     [Some \<lparr>n_id = Some ''gid://shopify/Metaobject/11'', n_title = None, n_handle = None,
            n_priceRange = None, n_featuredImage = None,
            n_fields = Some
              [\<lparr>key = ''customer_name'', fvalue = ''Ann Lee'',
                ftype = ''single_line_text_field'', reference = None\<rparr>,
               \<lparr>key = ''rating'', fvalue = ''4'', ftype = ''number_decimal'',
                reference = None\<rparr>]\<rparr>,
      Some \<lparr>n_id = Some ''gid://shopify/Metaobject/12'', n_title = None, n_handle = None,
            n_priceRange = None, n_featuredImage = None,
            n_fields = Some
              [\<lparr>key = ''review_text'', fvalue = ''Great'',
                ftype = ''multi_line_text_field'', reference = None\<rparr>]\<rparr>] = Inr rs
     \<and> (\<exists>rv\<in>set rs. r_id rv = Some ''gid://shopify/Metaobject/12'' \<and> customerName rv = '''')"
proof -
  let ?fs = "[\<lparr>key = ''review_text'', fvalue = ''Great'',
                ftype = ''multi_line_text_field'', reference = None\<rparr>]"
  let ?b = "\<lparr>n_id = Some ''gid://shopify/Metaobject/12'', n_title = None, n_handle = None,
            n_priceRange = None, n_featuredImage = None, n_fields = Some ?fs\<rparr>"
  let ?L = "[Some \<lparr>n_id = Some ''gid://shopify/Metaobject/11'', n_title = None, n_handle = None,
            n_priceRange = None, n_featuredImage = None,
            n_fields = Some
              [\<lparr>key = ''customer_name'', fvalue = ''Ann Lee'',
                ftype = ''single_line_text_field'', reference = None\<rparr>,
               \<lparr>key = ''rating'', fvalue = ''4'', ftype = ''number_decimal'',
                reference = None\<rparr>]\<rparr>,
      Some ?b]"
  from reviews_keep_entries_without_name
    [where reviewNodes = ?L and parseFloat = parseFloat_digits
       and encodeURIComponent = encodeURIComponent_bytes]
  obtain rs where rs: "reviews parseFloat_digits encodeURIComponent_bytes ?L = Inr rs"
    and kept: "\<forall>n fs. Some n \<in> set ?L \<and> n_fields n = Some fs
          \<and> (\<forall>f\<in>set fs. key f \<noteq> ''customer_name'') \<longrightarrow>
        (\<exists>rv\<in>set rs. reviewMap parseFloat_digits encodeURIComponent_bytes (Some n) = Inr rv
           \<and> r_id rv = n_id n \<and> customerName rv = '''')"
    by (elim exE conjE)
  have "Some ?b \<in> set ?L \<and> n_fields ?b = Some ?fs
          \<and> (\<forall>f\<in>set ?fs. key f \<noteq> ''customer_name'')" by simp
  with kept [rule_format, of ?b ?fs]
  have "\<exists>rv\<in>set rs. reviewMap parseFloat_digits encodeURIComponent_bytes (Some ?b) = Inr rv
           \<and> r_id rv = n_id ?b \<and> customerName rv = ''''" .
  then obtain rv where "rv \<in> set rs" "r_id rv = n_id ?b" "customerName rv = ''''" by (elim bexE conjE)
  then have "\<exists>rv\<in>set rs. r_id rv = Some ''gid://shopify/Metaobject/12'' \<and> customerName rv = ''''"
    by (intro bexI [of _ rv]) simp_all
  with rs show ?thesis by (intro exI [of _ rs] conjI)
qed

text \<open>
  C8. Every resolved review has a non-empty \<open>customerImage\<close>, and comes from a non-null node
  with a \<open>fields\<close> list. For such a node with field list \<open>fs\<close>: when no field has key
  \<open>customer_img\<close>, when the first such field has no reference, and when its reference
  carries no image, the \<open>customerImage\<close> is the \<open>ui-avatars.com\<close> URL built from the
  URL-encoded customer name; when the reference carries an image, it is the image's URL,
  or the avatar URL again if that URL is empty.
\<close>

theorem customerImage_never_empty:
  "(\<exists>rs. reviews parseFloat encodeURIComponent reviewNodes = Inr rs \<and>
      (\<forall>rv\<in>set rs. customerImage rv \<noteq> '''' \<and>
         (\<exists>n. Some n \<in> set reviewNodes \<and> n_fields n \<noteq> None \<and>
              reviewMap parseFloat encodeURIComponent (Some n) = Inr rv))) \<and>
   (n_fields n = Some fs \<longrightarrow>
      (\<exists>rv. reviewMap parseFloat encodeURIComponent (Some n) = Inr rv \<and>
         customerImage rv \<noteq> '''' \<and>
         ((\<forall>f\<in>set fs. key f \<noteq> ''customer_img'') \<longrightarrow>
            customerImage rv = avatarUrl encodeURIComponent (customerName rv)) \<and>
         (\<forall>pre f post. fs = pre @ f # post \<and> key f = ''customer_img''
              \<and> (\<forall>g\<in>set pre. key g \<noteq> ''customer_img'') \<longrightarrow>
            (reference f = None \<longrightarrow>
               customerImage rv = avatarUrl encodeURIComponent (customerName rv)) \<and>
            (\<forall>r. reference f = Some r \<and> ref_image r = None \<longrightarrow>
               customerImage rv = avatarUrl encodeURIComponent (customerName rv)) \<and>
            (\<forall>r img. reference f = Some r \<and> ref_image r = Some img \<longrightarrow>
               customerImage rv =
                 (if url img = '''' then avatarUrl encodeURIComponent (customerName rv)
                  else url img)))))"
proof (rule conjI)
  let ?f = "reviewMap parseFloat encodeURIComponent"
  have nonempty: "customerImage rv \<noteq> ''''" if "?f (Some n) = Inr rv" for n rv
    using customerImage_reviewMap [OF that] by (simp add: or_str_def)
  from reviews_total obtain rs
    where rs: "reviews parseFloat encodeURIComponent reviewNodes = Inr rs" by blast
  have "\<forall>rv\<in>set rs. customerImage rv \<noteq> '''' \<and>
         (\<exists>n. Some n \<in> set reviewNodes \<and> n_fields n \<noteq> None \<and> ?f (Some n) = Inr rv)"
  proof
    fix rv assume "rv \<in> set rs"
    from reviews_sources [OF rs this] obtain n
      where n: "Some n \<in> set reviewNodes" "n_fields n \<noteq> None" "?f (Some n) = Inr rv" by blast
    from nonempty [OF n(3)] n
    show "customerImage rv \<noteq> '''' \<and>
         (\<exists>n. Some n \<in> set reviewNodes \<and> n_fields n \<noteq> None \<and> ?f (Some n) = Inr rv)"
      by blast
  qed
  with rs show "\<exists>rs. reviews parseFloat encodeURIComponent reviewNodes = Inr rs \<and>
      (\<forall>rv\<in>set rs. customerImage rv \<noteq> '''' \<and>
         (\<exists>n. Some n \<in> set reviewNodes \<and> n_fields n \<noteq> None \<and> ?f (Some n) = Inr rv))"
    by blast
next
  let ?f = "reviewMap parseFloat encodeURIComponent"
  let ?k = "''customer_img''"
  show "n_fields n = Some fs \<longrightarrow>
      (\<exists>rv. ?f (Some n) = Inr rv \<and>
         customerImage rv \<noteq> '''' \<and>
         ((\<forall>f\<in>set fs. key f \<noteq> ?k) \<longrightarrow>
            customerImage rv = avatarUrl encodeURIComponent (customerName rv)) \<and>
         (\<forall>pre f post. fs = pre @ f # post \<and> key f = ?k \<and> (\<forall>g\<in>set pre. key g \<noteq> ?k) \<longrightarrow>
            (reference f = None \<longrightarrow>
               customerImage rv = avatarUrl encodeURIComponent (customerName rv)) \<and>
            (\<forall>r. reference f = Some r \<and> ref_image r = None \<longrightarrow>
               customerImage rv = avatarUrl encodeURIComponent (customerName rv)) \<and>
            (\<forall>r img. reference f = Some r \<and> ref_image r = Some img \<longrightarrow>
               customerImage rv =
                 (if url img = '''' then avatarUrl encodeURIComponent (customerName rv)
                  else url img))))"
  proof
    assume fs: "n_fields n = Some fs"
    obtain rv where rv: "?f (Some n) = Inr rv" by (simp add: reviewMap_Some)
    note ci = customerImage_reviewMap [OF rv, THEN conjunct2]
    note gi = getReviewImageField_find [OF fs, of ?k]
    have nonempty: "customerImage rv \<noteq> ''''" using ci by (simp add: or_str_def)
    have none: "customerImage rv = avatarUrl encodeURIComponent (customerName rv)"
      if "\<forall>f\<in>set fs. key f \<noteq> ?k"
      using ci gi find_no_match [of fs "\<lambda>f. key f = ?k"] that by (simp add: or_str_def)
    have first: "getReviewImageField n ?k =
        (case reference f of
           None \<Rightarrow> ''''
         | Some r \<Rightarrow> (case ref_image r of None \<Rightarrow> '''' | Some img \<Rightarrow> url img))"
      if "fs = pre @ f # post" "key f = ?k" "\<forall>g\<in>set pre. key g \<noteq> ?k" for pre f post
      using gi find_first_match [of fs pre f post "\<lambda>f. key f = ?k"] that by simp
    have noref: "customerImage rv = avatarUrl encodeURIComponent (customerName rv)"
      if "fs = pre @ f # post" "key f = ?k" "\<forall>g\<in>set pre. key g \<noteq> ?k" "reference f = None"
      for pre f post
      using ci first [OF that(1-3)] that(4) by (simp add: or_str_def)
    have noimg: "customerImage rv = avatarUrl encodeURIComponent (customerName rv)"
      if "fs = pre @ f # post" "key f = ?k" "\<forall>g\<in>set pre. key g \<noteq> ?k"
        "reference f = Some r" "ref_image r = None"
      for pre f post r
      using ci first [OF that(1-3)] that(4,5) by (simp add: or_str_def)
    have img: "customerImage rv =
        (if url img = '''' then avatarUrl encodeURIComponent (customerName rv) else url img)"
      if "fs = pre @ f # post" "key f = ?k" "\<forall>g\<in>set pre. key g \<noteq> ?k"
        "reference f = Some r" "ref_image r = Some img"
      for pre f post r img
      using ci first [OF that(1-3)] that(4,5) by (simp add: or_str_def)
    show "\<exists>rv. ?f (Some n) = Inr rv \<and>
         customerImage rv \<noteq> '''' \<and>
         ((\<forall>f\<in>set fs. key f \<noteq> ?k) \<longrightarrow>
            customerImage rv = avatarUrl encodeURIComponent (customerName rv)) \<and>
         (\<forall>pre f post. fs = pre @ f # post \<and> key f = ?k \<and> (\<forall>g\<in>set pre. key g \<noteq> ?k) \<longrightarrow>
            (reference f = None \<longrightarrow>
               customerImage rv = avatarUrl encodeURIComponent (customerName rv)) \<and>
            (\<forall>r. reference f = Some r \<and> ref_image r = None \<longrightarrow>
               customerImage rv = avatarUrl encodeURIComponent (customerName rv)) \<and>
            (\<forall>r img. reference f = Some r \<and> ref_image r = Some img \<longrightarrow>
               customerImage rv =
                 (if url img = '''' then avatarUrl encodeURIComponent (customerName rv)
                  else url img)))"
      apply (rule exI [of _ rv])
      apply (intro conjI allI impI)
      subgoal by (rule rv)
      subgoal by (rule nonempty)
      subgoal by (rule none)
      subgoal by (elim conjE, rule noref)
      subgoal by (elim conjE, rule noimg)
      subgoal by (elim conjE, rule img)
      done
  qed
qed

text \<open>
  At a review whose \<open>customer_img\<close> field has no reference: the avatar is built from the
  encoded name.
\<close>

theorem customerImage_never_empty_witness:
  "\<exists>rv. reviewMap parseFloat_digits encodeURIComponent_bytes
       (Some \<lparr>n_id = Some ''gid://shopify/Metaobject/11'', n_title = None, n_handle = None,
              n_priceRange = None, n_featuredImage = None,
              n_fields = Some
                [\<lparr>key = ''customer_name'', fvalue = ''Ann Lee'',
                  ftype = ''single_line_text_field'', reference = None\<rparr>,
                 \<lparr>key = ''customer_img'', fvalue = '''', ftype = ''file_reference'',
                  reference = None\<rparr>]\<rparr>) = Inr rv
     \<and> customerImage rv =
         ''https://ui-avatars.com/api/?name=Ann%20Lee&background=667eea&color=fff&size=100&bold=true''"
proof -
  let ?f1 = "\<lparr>key = ''customer_name'', fvalue = ''Ann Lee'',
                  ftype = ''single_line_text_field'', reference = None\<rparr>"
  let ?f2 = "\<lparr>key = ''customer_img'', fvalue = '''', ftype = ''file_reference'',
                  reference = None\<rparr>"
  let ?n = "\<lparr>n_id = Some ''gid://shopify/Metaobject/11'', n_title = None, n_handle = None,
              n_priceRange = None, n_featuredImage = None, n_fields = Some [?f1, ?f2]\<rparr>"
  have fs: "n_fields ?n = Some [?f1, ?f2]" by simp
  from customerImage_never_empty
    [where n = ?n and fs = "[?f1, ?f2]" and parseFloat = parseFloat_digits
       and encodeURIComponent = encodeURIComponent_bytes, THEN conjunct2, rule_format, OF fs]
  obtain rv where rv: "reviewMap parseFloat_digits encodeURIComponent_bytes (Some ?n) = Inr rv"
    and first: "\<forall>pre f post. [?f1, ?f2] = pre @ f # post \<and> key f = ''customer_img''
              \<and> (\<forall>g\<in>set pre. key g \<noteq> ''customer_img'') \<longrightarrow>
            (reference f = None \<longrightarrow>
               customerImage rv = avatarUrl encodeURIComponent_bytes (customerName rv)) \<and>
            (\<forall>r. reference f = Some r \<and> ref_image r = None \<longrightarrow>
               customerImage rv = avatarUrl encodeURIComponent_bytes (customerName rv)) \<and>
            (\<forall>r img. reference f = Some r \<and> ref_image r = Some img \<longrightarrow>
               customerImage rv =
                 (if url img = '''' then avatarUrl encodeURIComponent_bytes (customerName rv)
                  else url img))"
    by (elim exE conjE)
  have "[?f1, ?f2] = [?f1] @ ?f2 # [] \<and> key ?f2 = ''customer_img''
              \<and> (\<forall>g\<in>set [?f1]. key g \<noteq> ''customer_img'')" by simp
  from first [rule_format, OF this, THEN conjunct1]
  have ci: "customerImage rv = avatarUrl encodeURIComponent_bytes (customerName rv)" by simp
  have "customerName rv = ''Ann Lee''"
    using rv by (auto simp: reviewMap_Some getReviewField_def or_str_def)
  with ci have "customerImage rv =
      ''https://ui-avatars.com/api/?name=Ann%20Lee&background=667eea&color=fff&size=100&bold=true''"
    by (simp add: encodeURIComponent_bytes_def unreserved_def hexDigit_def)
  with rv show ?thesis by (intro exI [of _ rv] conjI)
qed

text \<open>
  C10. For a review node that survives filtering (a non-null node with field list \<open>fs\<close>)
  the mapper returns a review whose rating is \<open>parseFloat('5')\<close>, the number 5, when no
  field has key \<open>rating\<close> and when the first such field has the value \<open>''\<close>, and is
  \<open>parseFloat\<close> of that field's value otherwise.
\<close>

theorem rating_defaults_to_five:
  "n_fields n = Some fs \<Longrightarrow>
     \<exists>rv. reviewMap parseFloat encodeURIComponent (Some n) = Inr rv \<and>
       ((\<forall>f\<in>set fs. key f \<noteq> ''rating'') \<longrightarrow> rating rv = parseFloat ''5'') \<and>
       (\<forall>pre f post. fs = pre @ f # post \<and> key f = ''rating''
            \<and> (\<forall>g\<in>set pre. key g \<noteq> ''rating'') \<longrightarrow>
          (fvalue f = '''' \<longrightarrow> rating rv = parseFloat ''5'') \<and>
          (fvalue f \<noteq> '''' \<longrightarrow> rating rv = parseFloat (fvalue f)))"
proof -
  let ?f = "reviewMap parseFloat encodeURIComponent"
  let ?k = "''rating''"
  assume fs: "n_fields n = Some fs"
  obtain rv where rv: "?f (Some n) = Inr rv" by (simp add: reviewMap_Some)
  note ra = rating_reviewMap [OF rv]
  note gr = getReviewField_find [OF fs, of ?k]
  have none: "rating rv = parseFloat ''5''" if "\<forall>f\<in>set fs. key f \<noteq> ?k"
    using ra gr find_no_match [of fs "\<lambda>f. key f = ?k"] that by (simp add: or_str_def)
  have first: "getReviewField n ?k = fvalue f"
    if "fs = pre @ f # post" "key f = ?k" "\<forall>g\<in>set pre. key g \<noteq> ?k" for pre f post
    using gr find_first_match [of fs pre f post "\<lambda>f. key f = ?k"] that by simp
  have empty: "rating rv = parseFloat ''5''"
    if "fs = pre @ f # post" "key f = ?k" "\<forall>g\<in>set pre. key g \<noteq> ?k" "fvalue f = ''''"
    for pre f post
    using ra first [OF that(1-3)] that(4) by (simp add: or_str_def)
  have given: "rating rv = parseFloat (fvalue f)"
    if "fs = pre @ f # post" "key f = ?k" "\<forall>g\<in>set pre. key g \<noteq> ?k" "fvalue f \<noteq> ''''"
    for pre f post
    using ra first [OF that(1-3)] that(4) by (simp add: or_str_def)
  show ?thesis
    apply (rule exI [of _ rv])
    apply (intro conjI allI impI)
    subgoal by (rule rv)
    subgoal by (rule none)
    subgoal by (elim conjE, rule empty)
    subgoal by (elim conjE, rule given)
    done
qed

text \<open>At a review without a \<open>rating\<close> field, with \<open>parseFloat\<close> on digit strings: the rating is 5.\<close>

theorem rating_defaults_to_five_witness:
  "\<exists>rv. reviewMap parseFloat_digits encodeURIComponent_bytes
       (Some \<lparr>n_id = Some ''gid://shopify/Metaobject/12'', n_title = None, n_handle = None,
              n_priceRange = None, n_featuredImage = None,
              n_fields = Some
                [\<lparr>key = ''review_text'', fvalue = ''Great'',
                  ftype = ''multi_line_text_field'', reference = None\<rparr>]\<rparr>) = Inr rv
     \<and> rating rv = Some 5"
proof -
  let ?f1 = "\<lparr>key = ''review_text'', fvalue = ''Great'',
                  ftype = ''multi_line_text_field'', reference = None\<rparr>"
  let ?n = "\<lparr>n_id = Some ''gid://shopify/Metaobject/12'', n_title = None, n_handle = None,
              n_priceRange = None, n_featuredImage = None, n_fields = Some [?f1]\<rparr>"
  have fs: "n_fields ?n = Some [?f1]" by simp
  from rating_defaults_to_five
    [where parseFloat = parseFloat_digits and encodeURIComponent = encodeURIComponent_bytes,
      OF fs]
  obtain rv where rv: "reviewMap parseFloat_digits encodeURIComponent_bytes (Some ?n) = Inr rv"
    and none: "(\<forall>f\<in>set [?f1]. key f \<noteq> ''rating'') \<longrightarrow> rating rv = parseFloat_digits ''5''"
    by (elim exE conjE)
  from none have "rating rv = parseFloat_digits ''5''" by simp
  then have "rating rv = Some 5"
    by (simp add: parseFloat_digits_def isDigit_def digitValue_def)
  with rv show ?thesis by (intro exI [of _ rv] conjI)
qed

section \<open>The visible window of the carousel\<close>

lemma js_rem_nonneg: "0 \<le> a \<Longrightarrow> js_rem a n = a mod \<bar>n\<bar>"
  by (cases "a = 0") (simp_all add: js_rem_def)

text \<open>
  In the window the dividend \<open>currentIndex + i + n\<close> is at least \<open>-1\<close>, and \<open>-1\<close> only for a
  single product, where every remainder is 0: the remainder is the mathematical modulus.
\<close>

lemma js_rem_window:
  assumes "0 \<le> c" "1 \<le> n" "- 2 \<le> i"
  shows "js_rem (c + i + n) n = (c + i + n) mod n"
proof (cases "0 \<le> c + i + n")
  case True
  with assms(2) show ?thesis by (simp add: js_rem_nonneg)
next
  case False
  with assms have "n = 1" by linarith
  then show ?thesis by (simp add: js_rem_def)
qed

lemma at_index_mod:
  "xs \<noteq> [] \<Longrightarrow> at_index xs (a mod int (length xs)) = Some (xs ! nat (a mod int (length xs)))"
  by (simp add: at_index_def)

lemma visibleProducts_unfold:
  "visibleProducts ps currentIndex =
     map (\<lambda>i. \<lparr>vp_product =
                  at_index ps (js_rem (currentIndex + i + int (length ps)) (int (length ps))),
                offset = i, isActive = (i = 0)\<rparr>)
       [- 2, - 1, 0, 1, 2]"
  by (simp add: visibleProducts_def visibleLoop.simps Let_def)

text \<open>The index state is never negative.\<close>

lemma navigate_nonneg: "0 \<le> c \<Longrightarrow> 1 \<le> snd step \<Longrightarrow> 0 \<le> navigate c step"
proof (cases step)
  case (Pair ev n)
  assume "0 \<le> c" "1 \<le> snd step"
  with Pair show ?thesis
    by (cases ev) (simp_all add: handleNext_def handlePrevious_def js_rem_nonneg)
qed

lemma foldl_navigate_nonneg:
  "0 \<le> c \<Longrightarrow> \<forall>step\<in>set steps. 1 \<le> snd step \<Longrightarrow> 0 \<le> foldl navigate c steps"
proof (induction steps arbitrary: c)
  case Nil
  then show ?case by simp
next
  case (Cons step steps)
  from Cons.prems have "0 \<le> navigate c step" by (simp add: navigate_nonneg)
  with Cons.prems Cons.IH [of "navigate c step"] show ?case by simp
qed

lemma currentIndexAfter_nonneg:
  "\<forall>step\<in>set steps. 1 \<le> snd step \<Longrightarrow> 0 \<le> currentIndexAfter steps"
  unfolding currentIndexAfter_def by (rule foldl_navigate_nonneg) simp_all

text \<open>
  C9. For every non-empty product list of length \<open>n\<close> and every current index (a
  non-negative integer, as every value of the index state is): the visible window has
  exactly 5 entries, with the offsets \<open>-2, -1, 0, 1, 2\<close> in this order; the entry at offset
  \<open>i\<close> is the product at position \<open>(currentIndex + i + n) mod n\<close>; and exactly the entry at
  offset 0 is active. With fewer than 5 products the window repeats them.
\<close>

theorem visibleProducts_window:
  "ps \<noteq> [] \<Longrightarrow> 0 \<le> currentIndex \<Longrightarrow>
     visibleProducts ps currentIndex =
       map (\<lambda>i. \<lparr>vp_product =
                    Some (ps ! nat ((currentIndex + i + int (length ps)) mod int (length ps))),
                  offset = i, isActive = (i = 0)\<rparr>)
         [- 2, - 1, 0, 1, 2]
     \<and> length (visibleProducts ps currentIndex) = 5
     \<and> map offset (visibleProducts ps currentIndex) = [- 2, - 1, 0, 1, 2]
     \<and> map isActive (visibleProducts ps currentIndex) = [False, False, True, False, False]"
proof -
  assume ps: "ps \<noteq> []" and c: "0 \<le> currentIndex"
  let ?n = "int (length ps)"
  from ps have n: "1 \<le> ?n" by (cases ps) simp_all
  have entry: "at_index ps (js_rem (currentIndex + i + ?n) ?n) =
      Some (ps ! nat ((currentIndex + i + ?n) mod ?n))" if "- 2 \<le> i" for i
    using js_rem_window [OF c n that] at_index_mod [OF ps, of "currentIndex + i + ?n"] by simp
  have "visibleProducts ps currentIndex =
       map (\<lambda>i. \<lparr>vp_product = Some (ps ! nat ((currentIndex + i + ?n) mod ?n)),
                  offset = i, isActive = (i = 0)\<rparr>)
         [- 2, - 1, 0, 1, 2]"
    unfolding visibleProducts_unfold
    using entry [of "- 2"] entry [of "- 1"] entry [of 0] entry [of 1] entry [of 2] by simp
  then show ?thesis by simp
qed

text \<open>At two products and the index 0 the window is the first product, between copies of both.\<close>

theorem visibleProducts_window_witness:
  "map (\<lambda>v. (map_option p_handle (vp_product v), offset v, isActive v))
     (visibleProducts
        [\<lparr>p_id = Some ''gid://shopify/Product/1'', p_title = Some ''Runner'',
          p_priceRange = \<lparr>minVariantPrice = \<lparr>amount = ''99.0'', currencyCode = ''USD''\<rparr>\<rparr>,
          p_featuredImage = None, p_handle = Some ''runner''\<rparr>,
         \<lparr>p_id = Some ''gid://shopify/Product/3'', p_title = Some ''Trail'',
          p_priceRange = \<lparr>minVariantPrice = \<lparr>amount = ''120.0'', currencyCode = ''USD''\<rparr>\<rparr>,
          p_featuredImage = None, p_handle = Some ''trail''\<rparr>] 0)
   = [(Some (Some ''runner''), - 2, False), (Some (Some ''trail''), - 1, False),
      (Some (Some ''runner''), 0, True), (Some (Some ''trail''), 1, False),
      (Some (Some ''runner''), 2, False)]"
proof -
  let ?ps = "[\<lparr>p_id = Some ''gid://shopify/Product/1'', p_title = Some ''Runner'',
          p_priceRange = \<lparr>minVariantPrice = \<lparr>amount = ''99.0'', currencyCode = ''USD''\<rparr>\<rparr>,
          p_featuredImage = None, p_handle = Some ''runner''\<rparr>,
         \<lparr>p_id = Some ''gid://shopify/Product/3'', p_title = Some ''Trail'',
          p_priceRange = \<lparr>minVariantPrice = \<lparr>amount = ''120.0'', currencyCode = ''USD''\<rparr>\<rparr>,
          p_featuredImage = None, p_handle = Some ''trail''\<rparr>]"
  have ne: "?ps \<noteq> []" by simp
  have c: "(0::int) \<le> 0" by simp
  note w = visibleProducts_window [OF ne c, THEN conjunct1]
  show ?thesis unfolding w by simp
qed

section \<open>Section verdicts\<close>

lemma ProductCarousel_absent:
  "mo = None \<or> (\<exists>m. mo = Some m \<and> m_fields m = None) \<Longrightarrow>
     ProductCarousel mo currentIndex = Inr ProductCarouselError"
  by (auto simp: ProductCarousel_def)

lemma ProductCarousel_present:
  assumes "m_fields m \<noteq> None" and "products (getFieldReferences m ''products'') = Inr ps"
  shows "ProductCarousel (Some m) currentIndex =
     (if ps = [] then Inr (ProductCarouselEmpty (m_handle m))
      else Inr (ProductCarouselSection
                  (or_str (getFieldValue m ''heading'') ''Our Featured Products'')
                  (visibleProducts ps currentIndex) (at_index ps currentIndex)))"
  using assms by (auto simp: ProductCarousel_def Let_def)

lemma ReviewsSection_absent:
  "mo = None \<or> (\<exists>m. mo = Some m \<and> m_fields m = None) \<Longrightarrow>
     ReviewsSection parseFloat encodeURIComponent mo =
       Inr ([''[ReviewsSection] metaobject is null or has no fields''], ReviewsNull)"
  by (auto simp: ReviewsSection_def)

lemma ReviewsSection_present:
  assumes "m_fields m \<noteq> None"
    and "reviews parseFloat encodeURIComponent (getFieldReferences m ''reviews'') = Inr rs"
  shows "ReviewsSection parseFloat encodeURIComponent (Some m) =
     (if rs = [] then Inr ([], ReviewsNull)
      else Inr ([], ReviewsView
                  (or_str (getFieldValue m ''heading'') ''What Our Customers Say'') rs))"
  using assms by (auto simp: ReviewsSection_def Let_def)

lemma missing_cases:
  obtains (absent) "mo = None \<or> (\<exists>m. mo = Some m \<and> m_fields m = None)"
  | (present) m where "mo = Some m" "m_fields m \<noteq> None"
  by (cases mo) auto

text \<open>
  The hero component has no verdict of its own: given a metaobject without a \<open>fields\<close> list
  it returns the ordinary view, with every text \<open>''\<close> and no background image.
\<close>

theorem HeroParallax_without_fields_counterexample:
  "HeroParallax
     \<lparr>m_id = ''gid://shopify/Metaobject/1'', m_type = ''section_hero'',
      m_handle = ''welcome-to-sneaker-store'', m_fields = None\<rparr>
   = \<lparr>hv_heading = '''', hv_subheading = '''', hv_ctaText = '''', hv_ctaUrl = '''',
      hv_backgroundImage = None\<rparr>"
  by (simp add: HeroParallax_def getFieldValue_def backgroundImage_def getFieldReference_def
      narrowImage_def)

text \<open>
  C4 as the code has it. \<open>ProductCarousel\<close> and \<open>ReviewsSection\<close> classify their
  metaobject. Absent: when the metaobject is null or has no \<open>fields\<close> list,
  \<open>ProductCarousel\<close> returns the diagnostic error block and \<open>ReviewsSection\<close> returns \<open>null\<close>
  after one \<open>console.error\<close> message; these results occur only then. Empty: when \<open>fields\<close>
  exists and no product (no review) is left after the projection, \<open>ProductCarousel\<close>
  returns the empty state naming the handle and \<open>ReviewsSection\<close> returns \<open>null\<close> without a
  message; the empty state occurs only then. Neither component throws. The hero section is
  classified by the page only: a null hero slot gives the placeholder, while \<open>HeroParallax\<close>
  on a metaobject without \<open>fields\<close> returns the view with empty texts and no image.
\<close>

theorem section_classification:
  "ProductCarousel None currentIndex = Inr ProductCarouselError \<and>
   (m_fields m = None \<longrightarrow> ProductCarousel (Some m) currentIndex = Inr ProductCarouselError) \<and>
   (m_fields m \<noteq> None \<and> products (getFieldReferences m ''products'') = Inr [] \<longrightarrow>
      ProductCarousel (Some m) currentIndex = Inr (ProductCarouselEmpty (m_handle m))) \<and>
   (ProductCarousel mo currentIndex = Inr ProductCarouselError \<longleftrightarrow>
      mo = None \<or> (\<exists>m'. mo = Some m' \<and> m_fields m' = None)) \<and>
   (\<forall>h. ProductCarousel mo currentIndex = Inr (ProductCarouselEmpty h) \<longrightarrow>
      (\<exists>m'. mo = Some m' \<and> m_fields m' \<noteq> None \<and> h = m_handle m' \<and>
         products (getFieldReferences m' ''products'') = Inr [])) \<and>
   (\<exists>v. ProductCarousel mo currentIndex = Inr v) \<and>
   ReviewsSection parseFloat encodeURIComponent None =
     Inr ([''[ReviewsSection] metaobject is null or has no fields''], ReviewsNull) \<and>
   (m_fields m = None \<longrightarrow>
      ReviewsSection parseFloat encodeURIComponent (Some m) =
        Inr ([''[ReviewsSection] metaobject is null or has no fields''], ReviewsNull)) \<and>
   (m_fields m \<noteq> None
      \<and> reviews parseFloat encodeURIComponent (getFieldReferences m ''reviews'') = Inr [] \<longrightarrow>
      ReviewsSection parseFloat encodeURIComponent (Some m) = Inr ([], ReviewsNull)) \<and>
   (ReviewsSection parseFloat encodeURIComponent mo =
      Inr ([''[ReviewsSection] metaobject is null or has no fields''], ReviewsNull) \<longleftrightarrow>
      mo = None \<or> (\<exists>m'. mo = Some m' \<and> m_fields m' = None)) \<and>
   (ReviewsSection parseFloat encodeURIComponent mo = Inr ([], ReviewsNull) \<longrightarrow>
      (\<exists>m'. mo = Some m' \<and> m_fields m' \<noteq> None \<and>
         reviews parseFloat encodeURIComponent (getFieldReferences m' ''reviews'') = Inr [])) \<and>
   (\<exists>v. ReviewsSection parseFloat encodeURIComponent mo = Inr v) \<and>
   (heroParallax d = None \<longrightarrow>
      hero_slot (Homepage parseFloat encodeURIComponent d currentIndex) =
        Placeholder ''Hero section loading...'') \<and>
   (m_fields m = None \<longrightarrow>
      HeroParallax m =
        \<lparr>hv_heading = '''', hv_subheading = '''', hv_ctaText = '''', hv_ctaUrl = '''',
         hv_backgroundImage = None\<rparr>)"
proof (intro conjI)
  let ?msg = "''[ReviewsSection] metaobject is null or has no fields''"
  let ?RS = "ReviewsSection parseFloat encodeURIComponent"
  show "ProductCarousel None currentIndex = Inr ProductCarouselError"
    by (rule ProductCarousel_absent) simp
  show "m_fields m = None \<longrightarrow> ProductCarousel (Some m) currentIndex = Inr ProductCarouselError"
    by (simp add: ProductCarousel_absent)
  show "m_fields m \<noteq> None \<and> products (getFieldReferences m ''products'') = Inr [] \<longrightarrow>
      ProductCarousel (Some m) currentIndex = Inr (ProductCarouselEmpty (m_handle m))"
    by (simp add: ProductCarousel_present)
  show "ProductCarousel mo currentIndex = Inr ProductCarouselError \<longleftrightarrow>
      mo = None \<or> (\<exists>m'. mo = Some m' \<and> m_fields m' = None)"
  proof (cases rule: missing_cases [where mo = mo])
    case absent
    then show ?thesis by (simp add: ProductCarousel_absent)
  next
    case (present m')
    from products_total obtain ps
      where "products (getFieldReferences m' ''products'') = Inr ps" by blast
    from ProductCarousel_present [OF present(2) this] present show ?thesis by simp
  qed
  show "\<forall>h. ProductCarousel mo currentIndex = Inr (ProductCarouselEmpty h) \<longrightarrow>
      (\<exists>m'. mo = Some m' \<and> m_fields m' \<noteq> None \<and> h = m_handle m' \<and>
         products (getFieldReferences m' ''products'') = Inr [])"
  proof (cases rule: missing_cases [where mo = mo])
    case absent
    then show ?thesis by (simp add: ProductCarousel_absent)
  next
    case (present m')
    from products_total obtain ps
      where ps: "products (getFieldReferences m' ''products'') = Inr ps" by blast
    from ProductCarousel_present [OF present(2) ps] present ps show ?thesis
      by (auto split: if_splits)
  qed
  show "\<exists>v. ProductCarousel mo currentIndex = Inr v"
  proof (cases rule: missing_cases [where mo = mo])
    case absent
    then show ?thesis by (simp add: ProductCarousel_absent)
  next
    case (present m')
    from products_total obtain ps
      where "products (getFieldReferences m' ''products'') = Inr ps" by blast
    from ProductCarousel_present [OF present(2) this] present show ?thesis by simp
  qed
  show "?RS None = Inr ([?msg], ReviewsNull)"
    by (rule ReviewsSection_absent) simp
  show "m_fields m = None \<longrightarrow> ?RS (Some m) = Inr ([?msg], ReviewsNull)"
    by (simp add: ReviewsSection_absent)
  show "m_fields m \<noteq> None
      \<and> reviews parseFloat encodeURIComponent (getFieldReferences m ''reviews'') = Inr [] \<longrightarrow>
      ?RS (Some m) = Inr ([], ReviewsNull)"
    by (simp add: ReviewsSection_present)
  show "?RS mo = Inr ([?msg], ReviewsNull) \<longleftrightarrow>
      mo = None \<or> (\<exists>m'. mo = Some m' \<and> m_fields m' = None)"
  proof (cases rule: missing_cases [where mo = mo])
    case absent
    then show ?thesis by (simp add: ReviewsSection_absent)
  next
    case (present m')
    from reviews_total obtain rs
      where "reviews parseFloat encodeURIComponent (getFieldReferences m' ''reviews'') = Inr rs"
      by blast
    from ReviewsSection_present [OF present(2) this] present show ?thesis by simp
  qed
  show "?RS mo = Inr ([], ReviewsNull) \<longrightarrow>
      (\<exists>m'. mo = Some m' \<and> m_fields m' \<noteq> None \<and>
         reviews parseFloat encodeURIComponent (getFieldReferences m' ''reviews'') = Inr [])"
  proof (cases rule: missing_cases [where mo = mo])
    case absent
    then show ?thesis by (simp add: ReviewsSection_absent)
  next
    case (present m')
    from reviews_total obtain rs
      where rs: "reviews parseFloat encodeURIComponent (getFieldReferences m' ''reviews'') = Inr rs"
      by blast
    from ReviewsSection_present [OF present(2) rs] present rs show ?thesis
      by (auto split: if_splits)
  qed
  show "\<exists>v. ?RS mo = Inr v"
  proof (cases rule: missing_cases [where mo = mo])
    case absent
    then show ?thesis by (simp add: ReviewsSection_absent)
  next
    case (present m')
    from reviews_total obtain rs
      where "reviews parseFloat encodeURIComponent (getFieldReferences m' ''reviews'') = Inr rs"
      by blast
    from ReviewsSection_present [OF present(2) this] present show ?thesis by simp
  qed
  show "heroParallax d = None \<longrightarrow>
      hero_slot (Homepage parseFloat encodeURIComponent d currentIndex) =
        Placeholder ''Hero section loading...''"
    by (simp add: Homepage_def)
  show "m_fields m = None \<longrightarrow>
      HeroParallax m =
        \<lparr>hv_heading = '''', hv_subheading = '''', hv_ctaText = '''', hv_ctaUrl = '''',
         hv_backgroundImage = None\<rparr>"
    by (simp add: HeroParallax_def getFieldValue_def backgroundImage_def getFieldReference_def
        narrowImage_def)
qed

text \<open>
  At a product showcase metaobject with the field \<open>heading = WELCOME\<close> and no \<open>products\<close>
  field: the empty state.
\<close>

theorem section_classification_witness:
  "ProductCarousel
     (Some \<lparr>m_id = ''gid://shopify/Metaobject/2'', m_type = ''section_product_showcase'',
            m_handle = ''our-products'',
            m_fields = Some
              [\<lparr>key = ''heading'', fvalue = ''WELCOME'', ftype = ''single_line_text_field'',
                reference = None, references = None\<rparr>]\<rparr>) 0
   = Inr (ProductCarouselEmpty ''our-products'')"
proof -
  let ?m = "\<lparr>m_id = ''gid://shopify/Metaobject/2'', m_type = ''section_product_showcase'',
            m_handle = ''our-products'',
            m_fields = Some
              [\<lparr>key = ''heading'', fvalue = ''WELCOME'', ftype = ''single_line_text_field'',
                reference = None, references = None\<rparr>]\<rparr>"
  have "m_fields ?m \<noteq> None \<and> products (getFieldReferences ?m ''products'') = Inr []"
    by (simp add: getFieldReferences_def products_def)
  with section_classification [where m = ?m and currentIndex = 0,
      THEN conjunct2, THEN conjunct2, THEN conjunct1]
  have "ProductCarousel (Some ?m) 0 = Inr (ProductCarouselEmpty (m_handle ?m))" by (rule mp)
  then show ?thesis by simp
qed

section \<open>The loader: settle all, degrade per slot\<close>



lemma loadCriticalData_helper_throws:
  "storefront_queries a = Inr q \<Longrightarrow> seoHome (request_url a) = Inl e \<Longrightarrow>
     loadCriticalData seoHome a = Inl e"
  by (cases q) (simp add: loadCriticalData_def)






end
